theory Spec2Isabelle
  imports Complex_Main "HOL-Library.Word"
begin

unbundle bit_operations_syntax

section \<open>Coverage classification and depth orchestration (bcbio/variation/coverage.py)\<close>

text \<open>
  A shallow embedding of \<^verbatim>\<open>bcbio/variation/coverage.py\<close>.

  Conventions of the model.
  \<^item> The module is Python 2 code (it passes the float \<^verbatim>\<open>1e5\<close> to \<^verbatim>\<open>itertools.islice\<close>,
    which only Python 2 accepts), so Python 2 semantics are followed where the two
    languages differ (ordering of an \<^verbatim>\<open>int\<close> against a \<^verbatim>\<open>str\<close>).
  \<^item> Python floats are modelled as exact rationals (\<^typ>\<open>rat\<close>): rounding of IEEE
    doubles, infinities and NaN are not modelled.
  \<^item> A raised exception is a value \<open>Inl e\<close>; every function that has effects takes the
    world and returns the world it leaves behind, also when it raises.
  \<^item> The world is the file system (path to modification time and content), a clock
    that stamps every write, and the trace of the calls made to external collaborators
    (shell commands, log lines, read counting).
  \<^item> External collaborators (pybedtools, readstats, reference contigs, the depth tool,
    path helpers of \<^verbatim>\<open>bcbio.utils\<close>) are the fields of an environment record.
\<close>

subsection \<open>Python values\<close>

datatype error =
    ZeroDivisionError
  | ValueError
  | NameError
  | TypeError
  | IOError
  | KeyError
  | IndexError
  | AttributeError
  | CalledProcessError
  | ExternalError string

type_synonym pyfloat = rat

text \<open>Truth value of an optional string: \<^verbatim>\<open>None\<close> and \<^verbatim>\<open>""\<close> are false.\<close>

definition truthy :: "string option \<Rightarrow> bool" where
  "truthy s = (case s of None \<Rightarrow> False | Some x \<Rightarrow> x \<noteq> [])"

text \<open>\<^verbatim>\<open>a or b\<close> on optional strings.\<close>

definition py_or :: "string option \<Rightarrow> string option \<Rightarrow> string option" where
  "py_or a b = (if truthy a then a else b)"

text \<open>\<^verbatim>\<open>str(n)\<close> for integers.\<close>

function str_digits :: "int \<Rightarrow> string" where
  "str_digits i =
     (if i < 10 then [''0123456789'' ! nat i]
      else str_digits (i div 10) @ [''0123456789'' ! nat (i mod 10)])"
  by pat_completeness auto
termination
  by (relation "measure nat") auto

declare str_digits.simps [simp del]

definition str_int :: "int \<Rightarrow> string" where
  "str_int i = (if i < 0 then CHR ''-'' # str_digits (- i) else str_digits i)"

text \<open>\<^verbatim>\<open>"%s" % x\<close> for an optional string: \<^verbatim>\<open>None\<close> prints as \<^verbatim>\<open>None\<close>.\<close>

definition str_opt :: "string option \<Rightarrow> string" where
  "str_opt s = (case s of None \<Rightarrow> ''None'' | Some x \<Rightarrow> x)"

text \<open>\<^verbatim>\<open>int(x)\<close> for a float: truncation towards zero.\<close>

definition int_of_float :: "pyfloat \<Rightarrow> int" where
  "int_of_float x = (if 0 \<le> x then \<lfloor>x\<rfloor> else \<lceil>x\<rceil>)"

text \<open>
  \<^verbatim>\<open>"%.1f" % x\<close>: one digit after the point, ties to even, the sign kept also when
  the digits round to zero.
\<close>

definition round_half_even :: "rat \<Rightarrow> int" where
  "round_half_even x =
     (let f = \<lfloor>x\<rfloor>; d = x - of_int f
      in if d < 1 / 2 then f
         else if 1 / 2 < d then f + 1
         else if even f then f else f + 1)"

definition fmt_1f :: "pyfloat \<Rightarrow> string" where
  "fmt_1f x =
     (let n = round_half_even (\<bar>x\<bar> * 10)
      in (if x < 0 then ''-'' else '''') @ str_int (n div 10) @ ''.'' @ str_int (n mod 10))"

subsection \<open>The sample, the world and the external collaborators\<close>

text \<open>
  The keys of the sample dictionary \<^verbatim>\<open>data\<close> that this module reads through the
  \<^verbatim>\<open>dd.get_*\<close> accessors. \<open>coverage_interval\<close> is
  \<^verbatim>\<open>data["config"]["algorithm"]["coverage_interval"]\<close>, the only key written.
\<close>

record sample_data =
  coverage_interval :: "string option"
  variant_regions_merged :: "string option"
  sample_callable :: "string option"
  ref_file :: "string option"
  align_bam :: "string option"
  work_bam :: "string option"
  sample_name :: string
  work_dir :: string
  coverage_depth_min :: int
  coverage :: "string option"
  cores :: int
  depth :: "string \<rightharpoonup> (string \<rightharpoonup> string)"

text \<open>
  File contents: text as a list of lines (each with its line end), or a YAML document as
  the value \<^verbatim>\<open>yaml.safe_load\<close> reads from it (\<open>None\<close> for an empty document).
\<close>

datatype scalar = YInt int | YFloat pyfloat | YStr string

datatype content =
    Lines "string list"
  | Yaml "(string \<times> scalar) list option"

record fnode =
  mtime :: nat
  content :: content

datatype event =
    Ran string string
  | Logged string
  | CountedReads "string option" bool "string option" "string option"

record world =
  files :: "string \<rightharpoonup> fnode"
  clock :: nat
  trace :: "event list"

type_synonym 'a result = "(error + 'a) \<times> world"

text \<open>Writing a file stamps it with the clock and advances the clock.\<close>

definition write_file :: "string \<Rightarrow> content \<Rightarrow> world \<Rightarrow> world" where
  "write_file p c w =
     w\<lparr>files := (files w)(p \<mapsto> \<lparr>mtime = clock w, content = c\<rparr>), clock := Suc (clock w)\<rparr>"

definition emit :: "event \<Rightarrow> world \<Rightarrow> world" where
  "emit e w = w\<lparr>trace := trace w @ [e]\<rparr>"

text \<open>
  The external collaborators. \<open>total_coverage\<close> is
  \<^verbatim>\<open>pybedtools.BedTool(fn).total_coverage()\<close>; \<open>file_contigs\<close> the (name, size) pairs of
  \<^verbatim>\<open>ref.file_contigs\<close>; \<open>number_of_mapped_reads\<close> is \<^verbatim>\<open>readstats.number_of_mapped_reads\<close>
  with its arguments \<^verbatim>\<open>bam_file, keep_dups, bed_file, target_name\<close>; \<open>noalt_contigs\<close> is
  \<^verbatim>\<open>shared.get_noalt_contigs\<close>; \<open>sv_bed\<close> is \<^verbatim>\<open>regions.get_sv_bed\<close>; \<open>bed_intersect\<close> is
  \<^verbatim>\<open>BedTool(a).intersect(b)\<close>; \<open>idxstats_aligned\<close> the \<^verbatim>\<open>aligned\<close> counts of
  \<^verbatim>\<open>bam.idxstats\<close>; \<open>median_query_length\<close> the \<^verbatim>\<open>np.median\<close> of the first reads'
  query lengths; \<open>splitext_plus\<close> and \<open>append_stem\<close> are the path helpers of
  \<^verbatim>\<open>bcbio.utils\<close>; \<open>tx_dir\<close> is the temporary directory a file transaction works in;
  \<open>mosdepth\<close> is the depth tool run through \<^verbatim>\<open>do.run\<close>: whether it exits with zero, and
  the files it wrote, each as the suffix after the output prefix and the content;
  \<open>str_format\<close> is Python's \<^verbatim>\<open>str.format\<close> on a text that has braces.
\<close>

record env =
  total_coverage :: "string option \<Rightarrow> error + int"
  file_contigs :: "string option \<Rightarrow> error + (string \<times> int) list"
  number_of_mapped_reads ::
    "string option \<Rightarrow> bool \<Rightarrow> string option \<Rightarrow> string option \<Rightarrow> error + int"
  noalt_contigs :: "(string \<times> int) list"
  sv_bed :: "string option"
  bed_intersect :: "(string \<rightharpoonup> fnode) \<Rightarrow> string \<Rightarrow> string option \<Rightarrow> error + content"
  idxstats_aligned :: "string option \<Rightarrow> error + int list"
  median_query_length :: "string option \<Rightarrow> error + pyfloat"
  splitext_plus :: "string \<Rightarrow> string \<times> string"
  append_stem :: "string \<Rightarrow> string \<Rightarrow> string"
  tx_dir :: string
  mosdepth :: "string \<Rightarrow> (string \<rightharpoonup> fnode) \<Rightarrow> bool \<times> (string \<times> content) list"
  str_format :: "string \<Rightarrow> error + string"

subsection \<open>Interval Classifier\<close>

definition GENOME_COV_THRESH :: pyfloat where
  "GENOME_COV_THRESH = 40 / 100"

definition OFFTARGET_THRESH :: pyfloat where
  "OFFTARGET_THRESH = 1 / 100"

definition DEPTH_THRESHOLDS :: "int list" where
  "DEPTH_THRESHOLDS = [1, 5, 10, 20, 50, 100, 250, 500, 1000, 5000, 10000, 50000]"

definition count_offtarget ::
  "env \<Rightarrow> sample_data \<Rightarrow> string option \<Rightarrow> string option \<Rightarrow> string \<Rightarrow> world \<Rightarrow> pyfloat result"
where
  "count_offtarget e data bam_file bed_file target_name w =
     (let w1 = emit (CountedReads bam_file False None None) w
      in case number_of_mapped_reads e bam_file False None None of
           Inl x \<Rightarrow> (Inl x, w1)
         | Inr mapped_unique \<Rightarrow>
             (let w2 = emit (CountedReads bam_file False bed_file (Some target_name)) w1
              in case number_of_mapped_reads e bam_file False bed_file (Some target_name) of
                   Inl x \<Rightarrow> (Inl x, w2)
                 | Inr ontarget \<Rightarrow>
                     if mapped_unique \<noteq> 0
                     then (Inr (of_int (mapped_unique - ontarget) / of_int mapped_unique), w2)
                     else (Inr 0, w2)))"

definition interval_message :: "string \<Rightarrow> string \<Rightarrow> pyfloat \<Rightarrow> pyfloat \<Rightarrow> string" where
  "interval_message sample cov_interval genome_cov_pct offtarget_pct =
     sample @ '': Assigned coverage as '' @ [CHR 0x27] @ cov_interval @ [CHR 0x27] @ '' with ''
       @ fmt_1f (genome_cov_pct * 100) @ ''% genome coverage and ''
       @ fmt_1f (offtarget_pct * 100) @ ''% offtarget coverage''"

text \<open>The tail of \<^verbatim>\<open>assign_interval\<close>: the log line and the write of the label.\<close>

definition record_interval ::
  "sample_data \<Rightarrow> string \<Rightarrow> pyfloat \<Rightarrow> pyfloat \<Rightarrow> world \<Rightarrow> sample_data result"
where
  "record_interval data cov_interval genome_cov_pct offtarget_pct w =
     (Inr (data\<lparr>coverage_interval := Some cov_interval\<rparr>),
      emit (Logged (interval_message (sample_name data) cov_interval genome_cov_pct offtarget_pct)) w)"

definition assign_interval :: "env \<Rightarrow> sample_data \<Rightarrow> world \<Rightarrow> sample_data result" where
  "assign_interval e data w =
     (if \<not> truthy (coverage_interval data) then
        (let vrs = variant_regions_merged data;
             callable_file = sample_callable data
         in case (if truthy vrs then total_coverage e vrs else total_coverage e callable_file) of
              Inl x \<Rightarrow> (Inl x, w)
            | Inr callable_size \<Rightarrow>
                (case file_contigs e (ref_file data) of
                   Inl x \<Rightarrow> (Inl x, w)
                 | Inr contigs \<Rightarrow>
                     (let total_size = sum_list (map snd contigs)
                      in if total_size = 0 then (Inl ZeroDivisionError, w)
                         else
                           (let genome_cov_pct = of_int callable_size / of_int total_size
                            in if GENOME_COV_THRESH < genome_cov_pct
                               then record_interval data ''genome'' genome_cov_pct 0 w
                               else if \<not> truthy vrs
                               then record_interval data ''regional'' genome_cov_pct 0 w
                               else
                                 (case count_offtarget e data
                                         (py_or (align_bam data) (work_bam data))
                                         (py_or vrs callable_file) ''variant_regions'' w of
                                    (Inl x, w1) \<Rightarrow> (Inl x, w1)
                                  | (Inr offtarget_pct, w1) \<Rightarrow>
                                      if OFFTARGET_THRESH < offtarget_pct
                                      then record_interval data ''regional'' genome_cov_pct
                                             offtarget_pct w1
                                      else record_interval data ''amplicon'' genome_cov_pct
                                             offtarget_pct w1)))))
      else (Inr data, w))"

subsection \<open>Paths, freshness and transactional writes\<close>

text \<open>\<^verbatim>\<open>os.path.join\<close>, \<^verbatim>\<open>os.path.basename\<close> and \<^verbatim>\<open>os.path.dirname\<close> of posixpath.\<close>

definition path_join :: "string \<Rightarrow> string \<Rightarrow> string" where
  "path_join a b =
     (case b of
        c # _ \<Rightarrow>
          if c = CHR ''/'' then b
          else if a = [] then b
          else if last a = CHR ''/'' then a @ b
          else a @ ''/'' @ b
      | [] \<Rightarrow> if a = [] then [] else if last a = CHR ''/'' then a else a @ ''/'')"

definition basename :: "string \<Rightarrow> string" where
  "basename p = rev (takeWhile (\<lambda>c. c \<noteq> CHR ''/'') (rev p))"

definition dirname :: "string \<Rightarrow> string" where
  "dirname p =
     (let head = rev (dropWhile (\<lambda>c. c \<noteq> CHR ''/'') (rev p))
      in if list_all (\<lambda>c. c = CHR ''/'') head then head
         else rev (dropWhile (\<lambda>c. c = CHR ''/'') (rev head)))"

text \<open>\<^verbatim>\<open>sep.join(xs)\<close>.\<close>

fun py_join :: "string \<Rightarrow> string list \<Rightarrow> string" where
  "py_join sep [] = []"
| "py_join sep [x] = x"
| "py_join sep (x # y # ys) = x @ sep @ py_join sep (y # ys)"

text \<open>
  Modelled from the spec: \<^verbatim>\<open>utils.safe_makedir\<close> is not among the source files; the spec
  treats safe directory creation as an external primitive. Directories are not part of
  the world, so it returns its path.
\<close>

definition safe_makedir :: "string \<Rightarrow> string" where
  "safe_makedir p = p"

text \<open>
  Modelled from the spec: \<^verbatim>\<open>utils.file_uptodate\<close> is not among the source files. The
  spec: an artifact is fresh when it exists and its modification time is not older than
  the dependency's. A dependency that is \<^verbatim>\<open>None\<close> or does not exist gives no freshness.
\<close>

definition file_uptodate :: "world \<Rightarrow> string \<Rightarrow> string option \<Rightarrow> bool" where
  "file_uptodate w fname cmp_fname =
     (case files w fname of
        None \<Rightarrow> False
      | Some f \<Rightarrow>
          (case cmp_fname of
             None \<Rightarrow> False
           | Some c \<Rightarrow> (case files w c of None \<Rightarrow> False | Some g \<Rightarrow> mtime g \<le> mtime f)))"

text \<open>
  Modelled from the spec: \<^verbatim>\<open>utils.file_exists\<close> is not among the source files; a file
  exists when the world has it.
\<close>

definition file_exists :: "world \<Rightarrow> string \<Rightarrow> bool" where
  "file_exists w fname = (case files w fname of None \<Rightarrow> False | Some f \<Rightarrow> True)"

text \<open>
  Modelled from the spec: \<^verbatim>\<open>file_transaction\<close> is not among the source files. The spec:
  outputs are written to a temporary location and renamed into the final path only
  after the body has finished without an exception; on a failure nothing is renamed.
  The temporary location is the directory \<open>tx_dir\<close> of the same file system; the body is
  handed the path \<^verbatim>\<open>tx_dir/basename(final)\<close>, and when the transaction ends, with or
  without an exception, every file under \<open>tx_dir\<close> is removed.
\<close>

definition tx_path :: "env \<Rightarrow> string \<Rightarrow> string" where
  "tx_path e final = path_join (tx_dir e) (basename final)"

text \<open>A path that lies in the temporary directory.\<close>

definition in_tx_dir :: "env \<Rightarrow> string \<Rightarrow> bool" where
  "in_tx_dir e p = (take (length (tx_dir e) + 1) p = tx_dir e @ ''/'')"

definition remove_tx_dir :: "env \<Rightarrow> world \<Rightarrow> world" where
  "remove_tx_dir e w = w\<lparr>files := (\<lambda>p. if in_tx_dir e p then None else files w p)\<rparr>"

definition file_transaction ::
  "env \<Rightarrow> string \<Rightarrow> (string \<Rightarrow> world \<Rightarrow> unit result) \<Rightarrow> world \<Rightarrow> unit result"
where
  "file_transaction e final body w =
     (case body (tx_path e final) w of
        (Inl x, w') \<Rightarrow> (Inl x, remove_tx_dir e w')
      | (Inr u, w') \<Rightarrow>
          (case files w' (tx_path e final) of
             None \<Rightarrow> (Inr (), remove_tx_dir e w')
           | Some f \<Rightarrow>
               (Inr (), remove_tx_dir e (w'\<lparr>files := (files w')(final \<mapsto> f)\<rparr>))))"

text \<open>
  \<^verbatim>\<open>shutil.move(src, dst)\<close>: the file leaves its old path and keeps its modification
  time; a missing source raises.
\<close>

definition move_file :: "string \<Rightarrow> string \<Rightarrow> world \<Rightarrow> unit result" where
  "move_file src dst w =
     (case files w src of
        None \<Rightarrow> (Inl IOError, w)
      | Some f \<Rightarrow> (Inr (), w\<lparr>files := ((files w)(src := None))(dst \<mapsto> f)\<rparr>))"

subsection \<open>Depth Orchestrator: one run of the depth tool\<close>

record MosdepthCov =
  dist :: string
  per_base :: "string option"
  regions :: "string option"
  quantize :: "string option"
  thresholds :: "string option"

definition mosdepth_prefix :: "sample_data \<Rightarrow> string \<Rightarrow> string" where
  "mosdepth_prefix data target_name =
     path_join
       (safe_makedir (path_join (path_join (work_dir data) ''coverage'') (sample_name data)))
       (sample_name data @ ''-'' @ target_name)"

text \<open>Truth value of an optional list: \<^verbatim>\<open>None\<close> and \<^verbatim>\<open>[]\<close> are false.\<close>

definition truthy_list :: "'a list option \<Rightarrow> bool" where
  "truthy_list xs = (case xs of None \<Rightarrow> False | Some ys \<Rightarrow> ys \<noteq> [])"

definition mosdepth_out ::
  "sample_data \<Rightarrow> string \<Rightarrow> string option \<Rightarrow> bool \<Rightarrow> (string \<times> string list) option
     \<Rightarrow> int list option \<Rightarrow> MosdepthCov"
where
  "mosdepth_out data target_name bed_file with_per_base quant thresh =
     (let prefix = mosdepth_prefix data target_name
      in \<lparr>dist = prefix @ ''.mosdepth.dist.txt'',
          per_base = (if with_per_base then Some (prefix @ ''.per-base.bed.gz'') else None),
          regions = (if truthy bed_file then Some (prefix @ ''.regions.bed.gz'') else None),
          quantize = (case quant of None \<Rightarrow> None | Some q \<Rightarrow> Some (prefix @ ''.quantized.bed.gz'')),
          thresholds = (if truthy_list thresh then Some (prefix @ ''.thresholds.bed.gz'') else None)\<rparr>)"

text \<open>The number after \<^verbatim>\<open>-F\<close> in the command template.\<close>

definition exclude_flag :: int where
  "exclude_flag = 1804"

text \<open>
  The SAM flag bits named by the docstring of \<^verbatim>\<open>calculate\<close>:
  \<^verbatim>\<open>BAM_FUNMAP | BAM_FSECONDARY | BAM_FQCFAIL | BAM_FDUP\<close>, and the mate-unmapped bit.
\<close>

definition BAM_FUNMAP :: "16 word" where
  "BAM_FUNMAP = 0x4"

definition BAM_FMUNMAP :: "16 word" where
  "BAM_FMUNMAP = 0x8"

definition BAM_FSECONDARY :: "16 word" where
  "BAM_FSECONDARY = 0x100"

definition BAM_FQCFAIL :: "16 word" where
  "BAM_FQCFAIL = 0x200"

definition BAM_FDUP :: "16 word" where
  "BAM_FDUP = 0x400"

definition quant_export_of :: "string list \<Rightarrow> string" where
  "quant_export_of labels =
     py_join '' && ''
       (map (\<lambda>(i, x). ''export MOSDEPTH_Q'' @ str_int (int i) @ ''='' @ x)
            (zip [0 ..< length labels] labels))
     @ '' && ''"

definition mosdepth_cmd ::
  "sample_data \<Rightarrow> string option \<Rightarrow> bool \<Rightarrow> (string \<times> string list) option \<Rightarrow> int list option
     \<Rightarrow> string \<Rightarrow> string option \<Rightarrow> string"
where
  "mosdepth_cmd data bed_file with_per_base quant thresh tx_prefix bam_file =
     (let num_cores = cores data;
          bed_arg = (if truthy bed_file then ''--by '' @ str_opt bed_file else '''');
          perbase_arg = (if with_per_base then '''' else ''--no-per-base'');
          mapq_arg = (if with_per_base then ''-Q 1''
                      else case quant of None \<Rightarrow> '''' | Some q \<Rightarrow> ''-Q 1'');
          quant_arg = (case quant of None \<Rightarrow> '''' | Some q \<Rightarrow> ''--quantize '' @ fst q);
          quant_export = (case quant of None \<Rightarrow> '''' | Some q \<Rightarrow> quant_export_of (snd q));
          thresholds_arg =
            (case thresh of
               None \<Rightarrow> ''''
             | Some ts \<Rightarrow> if ts = [] then '''' else ''-T '' @ py_join '','' (map str_int ts))
      in quant_export @ ''mosdepth -t '' @ str_int num_cores @ '' -F '' @ str_int exclude_flag
           @ '' '' @ mapq_arg @ '' '' @ perbase_arg @ '' '' @ bed_arg @ '' '' @ quant_arg
           @ '' '' @ tx_prefix @ '' '' @ str_opt bam_file @ '' '' @ thresholds_arg)"

text \<open>
  \<^verbatim>\<open>text.format(**locals())\<close>: a text without braces has no replacement field and is
  returned as it is; a text with a brace is resolved against the local variables by
  Python (it may raise \<^verbatim>\<open>ValueError\<close>, \<^verbatim>\<open>KeyError\<close> or \<^verbatim>\<open>IndexError\<close>), which is the
  collaborator \<open>str_format\<close>.
\<close>

definition format_locals :: "env \<Rightarrow> string \<Rightarrow> error + string" where
  "format_locals e text =
     (if list_all (\<lambda>c. c \<noteq> CHR 0x7B \<and> c \<noteq> CHR 0x7D) text then Inr text
      else str_format e text)"

definition mosdepth_message :: "sample_data \<Rightarrow> string \<Rightarrow> string" where
  "mosdepth_message data target_name =
     ''Calculating coverage: '' @ sample_name data @ '' '' @ target_name"

text \<open>
  \<^verbatim>\<open>do.run(cmd, message)\<close>: the command and its description join the trace. The depth
  tool writes its files, also the partial files of a failed run, at the output prefix
  that the command names (\<open>out_prefix\<close>) followed by each file's suffix, stamped with the
  clock; a non-zero exit raises.
\<close>

definition do_run :: "env \<Rightarrow> string \<Rightarrow> string \<Rightarrow> string \<Rightarrow> world \<Rightarrow> unit result" where
  "do_run e cmd message out_prefix w =
     (let w1 = emit (Ran cmd message) w
      in case mosdepth e cmd (files w) of
           (exit_ok, written) \<Rightarrow>
             (let w2 = w1\<lparr>files := files w1 ++
                            map_of (map (\<lambda>(suffix, c).
                                           (out_prefix @ suffix,
                                            \<lparr>mtime = clock w1, content = c\<rparr>)) written),
                          clock := Suc (clock w1)\<rparr>
              in if exit_ok then (Inr (), w2) else (Inl CalledProcessError, w2)))"

text \<open>One of the four guarded \<^verbatim>\<open>shutil.move\<close> calls.\<close>

definition move_out :: "string \<Rightarrow> string option \<Rightarrow> world \<Rightarrow> unit result" where
  "move_out tx_out_file out_path w =
     (case out_path of
        None \<Rightarrow> (Inr (), w)
      | Some p \<Rightarrow>
          if p = [] then (Inr (), w)
          else move_file (path_join (dirname tx_out_file) (basename p)) p w)"

text \<open>
  The body of the transaction in \<^verbatim>\<open>run_mosdepth\<close>. Both arguments of \<^verbatim>\<open>do.run\<close> are
  formatted before the tool runs; the command template has only fields that are local
  variables, the message holds the sample and target names.
\<close>

definition mosdepth_body ::
  "env \<Rightarrow> sample_data \<Rightarrow> string \<Rightarrow> string option \<Rightarrow> bool \<Rightarrow> (string \<times> string list) option
     \<Rightarrow> int list option \<Rightarrow> MosdepthCov \<Rightarrow> string option \<Rightarrow> string \<Rightarrow> world \<Rightarrow> unit result"
where
  "mosdepth_body e data target_name bed_file with_per_base quant thresh out bam_file tx_out_file w =
     (let tx_prefix = path_join (dirname tx_out_file) (basename (mosdepth_prefix data target_name));
          cmd = mosdepth_cmd data bed_file with_per_base quant thresh tx_prefix bam_file
      in case format_locals e (mosdepth_message data target_name) of
           Inl x \<Rightarrow> (Inl x, w)
         | Inr message \<Rightarrow>
             (case do_run e cmd message tx_prefix w of
                (Inl x, w1) \<Rightarrow> (Inl x, w1)
              | (Inr u1, w1) \<Rightarrow>
                  (case move_out tx_out_file (per_base out) w1 of
                     (Inl x, w2) \<Rightarrow> (Inl x, w2)
                   | (Inr u2, w2) \<Rightarrow>
                       (case move_out tx_out_file (regions out) w2 of
                          (Inl x, w3) \<Rightarrow> (Inl x, w3)
                        | (Inr u3, w3) \<Rightarrow>
                            (case move_out tx_out_file (quantize out) w3 of
                               (Inl x, w4) \<Rightarrow> (Inl x, w4)
                             | (Inr u4, w4) \<Rightarrow> move_out tx_out_file (thresholds out) w4)))))"

definition run_mosdepth ::
  "env \<Rightarrow> sample_data \<Rightarrow> string \<Rightarrow> string option \<Rightarrow> bool \<Rightarrow> (string \<times> string list) option
     \<Rightarrow> int list option \<Rightarrow> world \<Rightarrow> MosdepthCov result"
where
  "run_mosdepth e data target_name bed_file with_per_base quant thresh w =
     (let bam_file = py_or (align_bam data) (work_bam data);
          out = mosdepth_out data target_name bed_file with_per_base quant thresh
      in if \<not> file_uptodate w (dist out) bam_file then
           (case file_transaction e (dist out)
                   (mosdepth_body e data target_name bed_file with_per_base quant thresh out bam_file)
                   w of
              (Inl x, w') \<Rightarrow> (Inl x, w')
            | (Inr u, w') \<Rightarrow> (Inr out, w'))
         else (Inr out, w))"

text \<open>The final paths of an artifact bundle.\<close>

definition final_paths :: "MosdepthCov \<Rightarrow> string list" where
  "final_paths out =
     dist out
       # concat (map (\<lambda>x. case x of None \<Rightarrow> [] | Some p \<Rightarrow> [p])
                     [per_base out, regions out, quantize out, thresholds out])"

subsection \<open>Depth Orchestrator: the three targets and the Region Subsetter\<close>

definition tab :: string where
  "tab = [CHR 0x09]"

definition newline :: string where
  "newline = [CHR 0x0A]"

definition coverage_work_dir :: "sample_data \<Rightarrow> string" where
  "coverage_work_dir data =
     safe_makedir (path_join (path_join (work_dir data) ''coverage'') (sample_name data))"

definition align_work_dir :: "sample_data \<Rightarrow> string" where
  "align_work_dir data =
     safe_makedir (path_join (path_join (work_dir data) ''align'') (sample_name data))"

definition create_genome_regions :: "env \<Rightarrow> sample_data \<Rightarrow> world \<Rightarrow> string result" where
  "create_genome_regions e data w =
     (let variant_regions = path_join (coverage_work_dir data) ''target-genome.bed''
      in case file_transaction e variant_regions
                (\<lambda>tx_variant_regions w0.
                   (Inr (),
                    write_file tx_variant_regions
                      (Lines (map (\<lambda>(name, size). name @ tab @ ''0'' @ tab @ str_int size @ newline)
                                  (noalt_contigs e)))
                      w0))
                w of
           (Inl x, w') \<Rightarrow> (Inl x, w')
         | (Inr u, w') \<Rightarrow> (Inr variant_regions, w'))"

definition subset_to_variant_regions ::
  "env \<Rightarrow> string option \<Rightarrow> string option \<Rightarrow> sample_data \<Rightarrow> world \<Rightarrow> string result"
where
  "subset_to_variant_regions e callable_file variant_regions data w =
     (case callable_file of
        None \<Rightarrow> (Inl AttributeError, w)
      | Some cf \<Rightarrow>
          (let out_file = fst (splitext_plus e cf) @ ''-vrsubset.bed''
           in if \<not> file_uptodate w out_file callable_file then
                (case file_transaction e out_file
                        (\<lambda>tx_out_file w0.
                           case bed_intersect e (files w0) cf variant_regions of
                             Inl x \<Rightarrow> (Inl x, w0)
                           | Inr c \<Rightarrow>
                               (Inr (), write_file tx_out_file c w0))
                        w of
                   (Inl x, w') \<Rightarrow> (Inl x, w')
                 | (Inr u, w') \<Rightarrow> (Inr out_file, w'))
              else (Inr out_file, w)))"

text \<open>
  The entries \<^verbatim>\<open>dist\<close>, \<^verbatim>\<open>regions\<close>, \<^verbatim>\<open>thresholds\<close> that \<^verbatim>\<open>calculate\<close> copies from
  the named tuple when they are true.
\<close>

definition put_if :: "string \<Rightarrow> string option \<Rightarrow> (string \<rightharpoonup> string) \<Rightarrow> (string \<rightharpoonup> string)" where
  "put_if attr val m = (case val of None \<Rightarrow> m | Some v \<Rightarrow> if v = [] then m else m(attr \<mapsto> v))"

definition cur_depth_of :: "MosdepthCov \<Rightarrow> (string \<rightharpoonup> string)" where
  "cur_depth_of depth_info =
     put_if ''thresholds'' (thresholds depth_info)
       (put_if ''regions'' (regions depth_info)
          (put_if ''dist'' (Some (dist depth_info)) Map.empty))"

type_synonym depth_files = "string \<rightharpoonup> (string \<rightharpoonup> string)"

type_synonym target = "string \<times> string option \<times> (string \<times> string list) option \<times> int list option"

text \<open>The loop over \<^verbatim>\<open>to_calculate\<close>; the state is \<^verbatim>\<open>depth_files\<close> and \<^verbatim>\<open>callable_file\<close>.\<close>

fun calc_targets ::
  "env \<Rightarrow> sample_data \<Rightarrow> target list \<Rightarrow> depth_files \<Rightarrow> string option \<Rightarrow> world
     \<Rightarrow> (depth_files \<times> string option) result"
where
  "calc_targets e data [] dfs callable_file w = (Inr (dfs, callable_file), w)"
| "calc_targets e data ((target_name, region_bed, quant, thresh) # rest) dfs callable_file w =
     (if truthy region_bed then
        (case run_mosdepth e data target_name region_bed False quant thresh w of
           (Inl x, w1) \<Rightarrow> (Inl x, w1)
         | (Inr depth_info, w1) \<Rightarrow>
             calc_targets e data rest (dfs(target_name \<mapsto> cur_depth_of depth_info))
               (if target_name = ''variant_regions'' then quantize depth_info else callable_file) w1)
      else calc_targets e data rest dfs callable_file w)"

definition to_calculate :: "env \<Rightarrow> sample_data \<Rightarrow> string option \<Rightarrow> target list" where
  "to_calculate e data variant_regions =
     [(''variant_regions'', variant_regions,
        Some (''0:1:'' @ str_int (coverage_depth_min data) @ '':'',
              [''NO_COVERAGE'', ''LOW_COVERAGE'', ''CALLABLE'']),
        None),
      (''sv_regions'', sv_bed e, None, None),
      (''coverage'', coverage data, None, Some DEPTH_THRESHOLDS)]"

definition legacy_callable_file :: "sample_data \<Rightarrow> string" where
  "legacy_callable_file data =
     path_join (align_work_dir data) (sample_name data @ ''-coverage.callable.bed'')"

text \<open>The part of \<^verbatim>\<open>calculate\<close> after \<^verbatim>\<open>variant_regions\<close> is known.\<close>

definition calculate_with ::
  "env \<Rightarrow> string option \<Rightarrow> sample_data \<Rightarrow> string option \<Rightarrow> world
     \<Rightarrow> (string \<times> depth_files) result"
where
  "calculate_with e bam_file data variant_regions w =
     (let callable_file = legacy_callable_file data
      in case (if \<not> file_uptodate w callable_file bam_file
               then calc_targets e data (to_calculate e data variant_regions)
                      Map.empty (Some callable_file) w
               else (Inr (Map.empty, Some callable_file), w)) of
           (Inl x, w1) \<Rightarrow> (Inl x, w1)
         | (Inr (dfs, callable_file'), w1) \<Rightarrow>
             (case subset_to_variant_regions e callable_file' variant_regions data w1 of
                (Inl x, w2) \<Rightarrow> (Inl x, w2)
              | (Inr final_callable, w2) \<Rightarrow> (Inr (final_callable, dfs), w2)))"

definition calculate ::
  "env \<Rightarrow> string option \<Rightarrow> sample_data \<Rightarrow> world \<Rightarrow> (string \<times> depth_files) result"
where
  "calculate e bam_file data w =
     (let variant_regions = variant_regions_merged data
      in if \<not> truthy variant_regions then
           (case create_genome_regions e data w of
              (Inl x, w1) \<Rightarrow> (Inl x, w1)
            | (Inr vr, w1) \<Rightarrow> calculate_with e bam_file data (Some vr) w1)
         else calculate_with e bam_file data variant_regions w)"

subsection \<open>Reading text: whitespace, numbers\<close>

text \<open>The whitespace of a Python 2 byte string.\<close>

definition is_space :: "char \<Rightarrow> bool" where
  "is_space c = List.member [CHR 0x20, CHR 0x09, CHR 0x0A, CHR 0x0B, CHR 0x0C, CHR 0x0D] c"

definition rstrip :: "string \<Rightarrow> string" where
  "rstrip s = rev (dropWhile is_space (rev s))"

definition strip :: "string \<Rightarrow> string" where
  "strip s = dropWhile is_space (rstrip s)"

text \<open>\<^verbatim>\<open>s.split()\<close>: the maximal runs of characters that are not whitespace.\<close>

fun split_acc :: "string \<Rightarrow> string \<Rightarrow> string list" where
  "split_acc [] cur = (if cur = [] then [] else [cur])"
| "split_acc (c # cs) cur =
     (if is_space c then (if cur = [] then split_acc cs [] else cur # split_acc cs [])
      else split_acc cs (cur @ [c]))"

definition split_ws :: "string \<Rightarrow> string list" where
  "split_ws s = split_acc s []"

definition startswith :: "string \<Rightarrow> string \<Rightarrow> bool" where
  "startswith pre s = (take (length pre) s = pre)"

definition is_digit :: "char \<Rightarrow> bool" where
  "is_digit c = List.member ''0123456789'' c"

definition digits_val :: "string \<Rightarrow> int" where
  "digits_val s = foldl (\<lambda>acc c. acc * 10 + (of_char c - 48)) 0 s"

text \<open>The sign of a numeral and the rest of it.\<close>

definition split_sign :: "string \<Rightarrow> bool \<times> string" where
  "split_sign s =
     (case s of
        [] \<Rightarrow> (False, [])
      | c # r \<Rightarrow> if c = CHR ''-'' then (True, r) else if c = CHR ''+'' then (False, r) else (False, s))"

text \<open>
  \<^verbatim>\<open>int(s)\<close> on a token without whitespace: an optional sign and decimal digits;
  \<open>None\<close> stands for \<^verbatim>\<open>ValueError\<close>.
\<close>

definition py_int :: "string \<Rightarrow> int option" where
  "py_int s =
     (case split_sign s of
        (neg, body) \<Rightarrow>
          if body = [] then None
          else if list_all is_digit body
          then Some (if neg then - digits_val body else digits_val body)
          else None)"

text \<open>
  \<^verbatim>\<open>float(s)\<close> on a token without whitespace, for plain decimal numerals: an optional
  sign, digits, an optional point and digits, with a digit on one side of the point at
  least. Exponents, \<^verbatim>\<open>inf\<close> and \<^verbatim>\<open>nan\<close> are outside the model and read as \<open>None\<close>.
\<close>

definition py_float :: "string \<Rightarrow> pyfloat option" where
  "py_float s =
     (case split_sign s of
        (neg, body) \<Rightarrow>
          (let ip = takeWhile (\<lambda>c. c \<noteq> CHR ''.'') body;
               fp = drop 1 (dropWhile (\<lambda>c. c \<noteq> CHR ''.'') body)
           in if ip = [] \<and> fp = [] then None
              else if list_all is_digit ip \<and> list_all is_digit fp
              then (let v = of_int (digits_val ip) + of_int (digits_val fp) / 10 ^ length fp
                    in Some (if neg then - v else v))
              else None))"

text \<open>
  Opening a file of the world for reading its lines. A missing file raises; a file that
  holds a YAML document is outside the text model.
\<close>

definition read_lines :: "world \<Rightarrow> string \<Rightarrow> error + string list" where
  "read_lines w p =
     (case files w p of
        None \<Rightarrow> Inl IOError
      | Some f \<Rightarrow>
          (case content f of
             Lines ls \<Rightarrow> Inr ls
           | Yaml d \<Rightarrow> Inl (ExternalError ''yaml document read as text'')))"

subsection \<open>Coverage Cache\<close>

definition get_cache_file :: "sample_data \<Rightarrow> string \<Rightarrow> string" where
  "get_cache_file data target_name =
     path_join (align_work_dir data) (sample_name data @ ''-coverage'')
       @ ''-'' @ target_name @ ''-stats.yaml''"

text \<open>
  \<^verbatim>\<open>_read_cache\<close>: the dictionary of the cache file when it is fresh against every
  dependency that is true; the empty dictionary otherwise. \<open>None\<close> is the value
  \<^verbatim>\<open>yaml.safe_load\<close> gives for an empty document.
\<close>

definition read_cache :: "world \<Rightarrow> string \<Rightarrow> string option list \<Rightarrow> error + (string \<times> scalar) list option" where
  "read_cache w cache_file reuse_cmp_files =
     (let reuse_cmp_file = filter truthy reuse_cmp_files
      in if list_all (file_uptodate w cache_file) reuse_cmp_file then
           (case files w cache_file of
              None \<Rightarrow> Inl IOError
            | Some f \<Rightarrow>
                (case content f of
                   Yaml d \<Rightarrow> Inr d
                 | Lines ls \<Rightarrow> Inl (ExternalError ''text read as yaml document'')))
         else Inr (Some []))"

definition write_cache :: "(string \<times> scalar) list \<Rightarrow> string \<Rightarrow> world \<Rightarrow> world" where
  "write_cache cache cache_file w = write_file cache_file (Yaml (Some cache)) w"

text \<open>\<^verbatim>\<open>cache[k] = v\<close> on a dictionary kept as an association list.\<close>

fun dict_set :: "string \<Rightarrow> scalar \<Rightarrow> (string \<times> scalar) list \<Rightarrow> (string \<times> scalar) list" where
  "dict_set k v [] = [(k, v)]"
| "dict_set k v ((k', v') # kvs) =
     (if k' = k then (k, v) # kvs else (k', v') # dict_set k v kvs)"

text \<open>\<^verbatim>\<open>int(x)\<close> on a scalar read from the cache.\<close>

definition int_of_scalar :: "scalar \<Rightarrow> error + int" where
  "int_of_scalar v =
     (case v of
        YInt i \<Rightarrow> Inr i
      | YFloat x \<Rightarrow> Inr (int_of_float x)
      | YStr s \<Rightarrow> (case py_int (strip s) of None \<Rightarrow> Inl ValueError | Some i \<Rightarrow> Inr i))"

definition average_genome_coverage ::
  "env \<Rightarrow> sample_data \<Rightarrow> string option \<Rightarrow> world \<Rightarrow> pyfloat result"
where
  "average_genome_coverage e data bam_file w =
     (case file_contigs e (ref_file data) of
        Inl x \<Rightarrow> (Inl x, w)
      | Inr contigs \<Rightarrow>
          (let total = sum_list (map snd contigs)
           in case idxstats_aligned e bam_file of
                Inl x \<Rightarrow> (Inl x, w)
              | Inr aligned \<Rightarrow>
                  (let read_counts = sum_list aligned
                   in case median_query_length e bam_file of
                        Inl x \<Rightarrow> (Inl x, w)
                      | Inr read_size \<Rightarrow>
                          if total = 0 then (Inl ZeroDivisionError, w)
                          else (Inr (of_int read_counts * read_size / of_int total), w))))"

definition regions_coverage ::
  "env \<Rightarrow> string option \<Rightarrow> string \<Rightarrow> sample_data \<Rightarrow> world \<Rightarrow> string option result"
where
  "regions_coverage e bed_file target_name data w =
     (let ready_bed = (case depth data target_name of None \<Rightarrow> None | Some m \<Rightarrow> m ''regions'')
      in if truthy ready_bed then (Inr ready_bed, w)
         else (case run_mosdepth e data target_name bed_file False None None w of
                 (Inl x, w1) \<Rightarrow> (Inl x, w1)
               | (Inr out, w1) \<Rightarrow> (Inr (regions out), w1)))"

text \<open>
  The body of the loop of \<^verbatim>\<open>_average_bed_coverage\<close> for one line that is not a
  comment: the tokens, \<^verbatim>\<open>start\<close> and \<^verbatim>\<open>end\<close> from the second and third, the depth
  from the last; \<open>None\<close> stands for the \<^verbatim>\<open>ValueError\<close> of a failed conversion or
  unpacking.
\<close>

definition region_row :: "string \<Rightarrow> (int \<times> int \<times> pyfloat) option" where
  "region_row l =
     (let line_tokens = filter (\<lambda>x. strip x \<noteq> []) (split_ws (rstrip l))
      in case map py_int (take 2 (drop 1 line_tokens)) of
           [Some start, Some stop] \<Rightarrow>
             (case py_float (last line_tokens) of
                None \<Rightarrow> None
              | Some d \<Rightarrow> Some (start, stop, d))
         | _ \<Rightarrow> None)"

text \<open>
  The loop over the lines of the region-depth file; the state is \<^verbatim>\<open>avg_covs\<close> and
  \<^verbatim>\<open>total_len\<close>.
\<close>

fun bed_loop :: "string list \<Rightarrow> pyfloat list \<Rightarrow> int \<Rightarrow> error + (pyfloat list \<times> int)" where
  "bed_loop [] avg_covs total_len = Inr (avg_covs, total_len)"
| "bed_loop (l # ls) avg_covs total_len =
     (if startswith ''#'' l then bed_loop ls avg_covs total_len
      else
        (case region_row l of
           None \<Rightarrow> Inl ValueError
         | Some (start, stop, d) \<Rightarrow>
             (let size = stop - start
              in bed_loop ls (avg_covs @ [d * of_int size]) (total_len + size))))"

definition bed_average :: "string list \<Rightarrow> error + pyfloat" where
  "bed_average ls =
     (case bed_loop ls [] 0 of
        Inl x \<Rightarrow> Inl x
      | Inr (avg_covs, total_len) \<Rightarrow>
          Inr (if 0 < total_len then sum_list avg_covs / of_int total_len else 0))"

definition average_bed_coverage ::
  "env \<Rightarrow> string option \<Rightarrow> string \<Rightarrow> sample_data \<Rightarrow> world \<Rightarrow> pyfloat result"
where
  "average_bed_coverage e bed_file target_name data w =
     (case regions_coverage e bed_file target_name data w of
        (Inl x, w1) \<Rightarrow> (Inl x, w1)
      | (Inr depth_file, w1) \<Rightarrow>
          (case depth_file of
             None \<Rightarrow> (Inl AttributeError, w1)
           | Some p \<Rightarrow>
               (case read_lines w1 p of
                  Inl x \<Rightarrow> (Inl x, w1)
                | Inr ls \<Rightarrow>
                    (case bed_average ls of
                       Inl x \<Rightarrow> (Inl x, w1)
                     | Inr avg_cov \<Rightarrow> (Inr avg_cov, w1)))))"

definition get_average_coverage ::
  "env \<Rightarrow> string \<Rightarrow> string option \<Rightarrow> sample_data \<Rightarrow> string option \<Rightarrow> world \<Rightarrow> int result"
where
  "get_average_coverage e target_name bed_file data bam_arg w =
     (let bam_file = (if \<not> truthy bam_arg then py_or (align_bam data) (work_bam data) else bam_arg);
          cache_file = get_cache_file data target_name
      in case read_cache w cache_file [bam_file, bed_file] of
           Inl x \<Rightarrow> (Inl x, w)
         | Inr None \<Rightarrow> (Inl TypeError, w)
         | Inr (Some cache) \<Rightarrow>
             (case map_of cache ''avg_coverage'' of
                Some v \<Rightarrow>
                  (case int_of_scalar v of Inl x \<Rightarrow> (Inl x, w) | Inr i \<Rightarrow> (Inr i, w))
              | None \<Rightarrow>
                  (case (if truthy bed_file
                         then average_bed_coverage e bed_file target_name data w
                         else average_genome_coverage e data bam_file w) of
                     (Inl x, w1) \<Rightarrow> (Inl x, w1)
                   | (Inr avg_cov, w1) \<Rightarrow>
                       (Inr (int_of_float avg_cov),
                        write_cache (dict_set ''avg_coverage'' (YInt (int_of_float avg_cov)) cache)
                          cache_file w1))))"

subsection \<open>Percentile Aggregator\<close>

text \<open>
  The value of the local variable \<^verbatim>\<open>count\<close>: the text of the second field, replaced by
  its integer on a \<^verbatim>\<open>total\<close> row.
\<close>

datatype pyval = PInt int | PStr string

definition py_min :: "int list \<Rightarrow> error + int" where
  "py_min xs = (case xs of [] \<Rightarrow> Inl ValueError | y # ys \<Rightarrow> Inr (fold min ys y))"

definition py_max :: "int list \<Rightarrow> error + int" where
  "py_max xs = (case xs of [] \<Rightarrow> Inl ValueError | y # ys \<Rightarrow> Inr (fold max ys y))"

text \<open>
  The state of the loop over the lines of the distribution file: the rows written after
  the header, and the variables \<^verbatim>\<open>count\<close> and \<^verbatim>\<open>pct\<close>, unbound before the first line.
\<close>

type_synonym pct_state = "string list list \<times> pyval option \<times> string option"

text \<open>The body of the loop for one line.\<close>

definition percentile_step :: "int list \<Rightarrow> string \<Rightarrow> string \<Rightarrow> pct_state \<Rightarrow> error + pct_state" where
  "percentile_step cutoffs sample line st =
     (case st of
        (rows, count, pct) \<Rightarrow>
          (case split_ws (strip line) of
             [contig, count_s, pct_s] \<Rightarrow>
               if contig = ''total'' then
                 (case py_int count_s of
                    None \<Rightarrow> Inl ValueError
                  | Some c \<Rightarrow>
                      (case py_float pct_s of
                         None \<Rightarrow> Inl ValueError
                       | Some p \<Rightarrow>
                           (let pct' = fmt_1f (p * 100)
                            in case py_min cutoffs of
                                 Inl x \<Rightarrow> Inl x
                               | Inr lo \<Rightarrow>
                                   if lo \<le> c then
                                     (case py_max cutoffs of
                                        Inl x \<Rightarrow> Inl x
                                      | Inr hi \<Rightarrow>
                                          if c \<le> hi
                                          then Inr (rows @ [[''percentage'' @ str_int c, pct', sample]],
                                                    Some (PInt c), Some pct')
                                          else Inr (rows, Some (PInt c), Some pct'))
                                   else Inr (rows, Some (PInt c), Some pct'))))
               else Inr (rows, Some (PStr count_s), Some pct_s)
           | _ \<Rightarrow> Inl ValueError))"

fun percentile_loop :: "int list \<Rightarrow> string \<Rightarrow> string list \<Rightarrow> pct_state \<Rightarrow> error + pct_state" where
  "percentile_loop cutoffs sample [] st = Inr st"
| "percentile_loop cutoffs sample (line # ls) st =
     (case percentile_step cutoffs sample line st of
        Inl x \<Rightarrow> Inl x
      | Inr st' \<Rightarrow> percentile_loop cutoffs sample ls st')"

text \<open>
  \<^verbatim>\<open>min(cutoffs) < count\<close> after the loop: an unbound \<^verbatim>\<open>count\<close> raises; in Python 2
  every integer is below every string.
\<close>

definition floor_row :: "int list \<Rightarrow> string \<Rightarrow> pct_state \<Rightarrow> error + string list list" where
  "floor_row cutoffs sample st =
     (case st of
        (rows, count, pct) \<Rightarrow>
          (case py_min cutoffs of
             Inl x \<Rightarrow> Inl x
           | Inr lo \<Rightarrow>
               (case count of
                  None \<Rightarrow> Inl NameError
                | Some (PInt c) \<Rightarrow>
                    if lo < c then Inr (rows @ [[''percentage'' @ str_int lo, str_opt pct, sample]])
                    else Inr rows
                | Some (PStr s) \<Rightarrow>
                    Inr (rows @ [[''percentage'' @ str_int lo, str_opt pct, sample]]))))"

text \<open>All the rows handed to the writer, the header first.\<close>

definition percentile_rows :: "int list \<Rightarrow> string \<Rightarrow> string list \<Rightarrow> error + string list list" where
  "percentile_rows cutoffs sample ls =
     (case percentile_loop cutoffs sample ls ([], None, None) of
        Inl x \<Rightarrow> Inl x
      | Inr st \<Rightarrow>
          (case floor_row cutoffs sample st of
             Inl x \<Rightarrow> Inl x
           | Inr rows \<Rightarrow> Inr ([''cutoff_reads'', ''bases_pct'', ''sample''] # rows)))"

text \<open>
  A row as \<^verbatim>\<open>csv.writer\<close> with the \<^verbatim>\<open>excel-tab\<close> dialect writes it, for fields that need
  no quoting.
\<close>

definition csv_line :: "string list \<Rightarrow> string" where
  "csv_line row = py_join tab row @ [CHR 0x0D, CHR 0x0A]"

text \<open>
  Modelled from the spec: \<^verbatim>\<open>copy_plus\<close> is not among the source files. The spec: the
  summary is duplicated to the fixed file name.
\<close>

definition copy_plus :: "string \<Rightarrow> string \<Rightarrow> world \<Rightarrow> world" where
  "copy_plus orig new w =
     (case files w orig of None \<Rightarrow> w | Some f \<Rightarrow> write_file new (content f) w)"

definition calculate_percentiles ::
  "env \<Rightarrow> string \<Rightarrow> int list \<Rightarrow> sample_data \<Rightarrow> world \<Rightarrow> string list result"
where
  "calculate_percentiles e dist_file cutoffs data w =
     (if \<not> file_exists w dist_file then (Inr [], w)
      else
        (let sample = sample_name data;
             out_total_file = append_stem e dist_file ''_total_summary'';
             out_total_fixed = path_join (dirname out_total_file) (sample @ ''_bcbio_coverage_avg.txt'')
         in case (if \<not> file_exists w out_total_file then
                    file_transaction e out_total_file
                      (\<lambda>tx_file w0.
                         case read_lines w0 dist_file of
                           Inl x \<Rightarrow> (Inl x, w0)
                         | Inr ls \<Rightarrow>
                             (case percentile_rows cutoffs sample ls of
                                Inl x \<Rightarrow> (Inl x, w0)
                              | Inr rows \<Rightarrow>
                                  (Inr (), write_file tx_file (Lines (map csv_line rows)) w0)))
                      w
                  else (Inr (), w)) of
              (Inl x, w1) \<Rightarrow> (Inl x, w1)
            | (Inr u, w1) \<Rightarrow> (Inr [out_total_fixed], copy_plus out_total_file out_total_fixed w1)))"

subsection \<open>A concrete sample, world and environment\<close>

text \<open>
  One sample with a target region file, a reference of 100000 bases, 200 uniquely mapped
  reads of which 150 are on target, and a depth tool that exits with an error after it
  has written a part of the distribution file.
\<close>

definition demo_env :: env where
  "demo_env =
     \<lparr>total_coverage = (\<lambda>p. Inr 1000),
      file_contigs = (\<lambda>p. Inr [(''chr1'', 100000)]),
      number_of_mapped_reads =
        (\<lambda>bam keep_dups bed tn. case bed of None \<Rightarrow> Inr 200 | Some b \<Rightarrow> Inr 150),
      noalt_contigs = [(''chr1'', 100000)],
      sv_bed = None,
      bed_intersect = (\<lambda>fs a b. Inr (Lines [])),
      idxstats_aligned = (\<lambda>b. Inr [20000]),
      median_query_length = (\<lambda>b. Inr 100),
      splitext_plus =
        (\<lambda>p. (rev (drop 1 (dropWhile (\<lambda>c. c \<noteq> CHR ''.'') (rev p))),
              CHR ''.'' # rev (takeWhile (\<lambda>c. c \<noteq> CHR ''.'') (rev p)))),
      append_stem = (\<lambda>p s. p @ s),
      tx_dir = ''/tmp/tx'',
      mosdepth = (\<lambda>cmd fs. (False, [(''.mosdepth.dist.txt'', Lines [''total 50000 0.01''])])),
      str_format = (\<lambda>text. Inl KeyError)\<rparr>"

definition demo_data :: sample_data where
  "demo_data =
     \<lparr>coverage_interval = None,
      variant_regions_merged = Some ''/d/regions.bed'',
      sample_callable = None,
      ref_file = Some ''/d/ref.fa'',
      align_bam = Some ''/d/s1.bam'',
      work_bam = None,
      sample_name = ''s1'',
      work_dir = ''/w'',
      coverage_depth_min = 4,
      coverage = None,
      cores = 1,
      depth = Map.empty\<rparr>"

definition demo_world :: world where
  "demo_world =
     \<lparr>files =
        [''/d/s1.bam'' \<mapsto> \<lparr>mtime = 1, content = Lines []\<rparr>,
         ''/d/regions.bed'' \<mapsto> \<lparr>mtime = 2, content = Lines []\<rparr>,
         ''/d/cov.bed'' \<mapsto> \<lparr>mtime = 3, content = Lines []\<rparr>,
         ''/w/coverage/s1/s1-variant_regions.mosdepth.dist.txt''
           \<mapsto> \<lparr>mtime = 5, content = Lines []\<rparr>,
         ''/w/align/s1/s1-coverage.callable.bed'' \<mapsto> \<lparr>mtime = 6, content = Lines []\<rparr>],
      clock = 10,
      trace = []\<rparr>"

subsection \<open>The decision table of the specification\<close>

text \<open>
  The label the specification gives a sample, from the share of the genome that the
  regions cover, whether a target region file was supplied, and the offtarget share.
\<close>

definition spec_interval_label :: "pyfloat \<Rightarrow> bool \<Rightarrow> pyfloat \<Rightarrow> string" where
  "spec_interval_label genome_cov_pct has_target_regions offtarget_pct =
     (if 40 / 100 < genome_cov_pct then ''genome''
      else if \<not> has_target_regions then ''regional''
      else if 1 / 100 < offtarget_pct then ''regional''
      else ''amplicon'')"

subsection \<open>Rows of a distribution file, as the specification reads them\<close>

text \<open>
  The count and the fraction of a line that is a \<^verbatim>\<open>total\<close> row: three fields, the first
  \<^verbatim>\<open>total\<close>, an integer, a decimal fraction.
\<close>

definition total_row :: "string \<Rightarrow> (int \<times> pyfloat) option" where
  "total_row line =
     (case split_ws (strip line) of
        [contig, count_s, pct_s] \<Rightarrow>
          if contig = ''total'' then
            (case py_int count_s of
               None \<Rightarrow> None
             | Some c \<Rightarrow> (case py_float pct_s of None \<Rightarrow> None | Some p \<Rightarrow> Some (c, p)))
          else None
      | _ \<Rightarrow> None)"

text \<open>A line of three fields that, when its first field is \<^verbatim>\<open>total\<close>, is a \<^verbatim>\<open>total\<close> row.\<close>

definition dist_line_ok :: "string \<Rightarrow> bool" where
  "dist_line_ok line =
     (case split_ws (strip line) of
        [contig, count_s, pct_s] \<Rightarrow>
          if contig = ''total'' then (case total_row line of None \<Rightarrow> False | Some r \<Rightarrow> True)
          else True
      | _ \<Rightarrow> False)"

text \<open>The summary row of a \<^verbatim>\<open>total\<close> row.\<close>

definition summary_row :: "string \<Rightarrow> int \<times> pyfloat \<Rightarrow> string list" where
  "summary_row sample r = [''percentage'' @ str_int (fst r), fmt_1f (snd r * 100), sample]"

definition in_cutoffs :: "int list \<Rightarrow> int \<times> pyfloat \<Rightarrow> bool" where
  "in_cutoffs cutoffs r = (Min (set cutoffs) \<le> fst r \<and> fst r \<le> Max (set cutoffs))"

subsection \<open>Concrete runs\<close>

text \<open>
  The same environment with a depth tool that succeeds on the \<^verbatim>\<open>coverage\<close> target and
  writes a distribution, a region-depth and a thresholds file into the temporary
  directory.
\<close>

definition demo_tool_env :: env where
  "demo_tool_env =
     demo_env\<lparr>mosdepth :=
       (\<lambda>cmd fs.
          (True,
           [(''.mosdepth.dist.txt'',
             Lines [''total 50000 0.01'' @ newline, ''total 10 0.95'' @ newline]),
            (''.regions.bed.gz'',
             Lines [''chr1 0 100 10.00'' @ newline, ''chr1 100 200 30.00'' @ newline]),
            (''.thresholds.bed.gz'', Lines [])]))\<rparr>"

text \<open>The world after one run of the depth tool on the \<^verbatim>\<open>coverage\<close> target.\<close>

definition demo_after_run :: world where
  "demo_after_run =
     snd (run_mosdepth demo_tool_env demo_data ''coverage'' (Some ''/d/cov.bed'') False None
            (Some DEPTH_THRESHOLDS) demo_world)"

text \<open>The world after one query of the average coverage of the \<^verbatim>\<open>coverage\<close> target.\<close>

definition demo_after_query :: world where
  "demo_after_query =
     snd (get_average_coverage demo_tool_env ''coverage'' (Some ''/d/cov.bed'') demo_data None
            demo_world)"

text \<open>A region-depth file: a comment, and two regions of length 100 at depths 10 and 30.\<close>

definition two_regions :: "string list" where
  "two_regions =
     [''#chrom'' @ tab @ ''start'' @ tab @ ''end'' @ tab @ ''depth'' @ newline,
      ''chr1'' @ tab @ ''0'' @ tab @ ''100'' @ tab @ ''10.00'' @ newline,
      ''chr1'' @ tab @ ''100'' @ tab @ ''200'' @ tab @ ''30.00'' @ newline]"

text \<open>
  Two distribution files with the same rows: counts ascending, and counts descending as
  the depth tool writes them.
\<close>

definition dist_ascending :: "string list" where
  "dist_ascending =
     [''chr1'' @ tab @ ''10'' @ tab @ ''0.97'' @ newline,
      ''total'' @ tab @ ''10'' @ tab @ ''0.95'' @ newline,
      ''total'' @ tab @ ''50000'' @ tab @ ''0.01'' @ newline]"

definition dist_descending :: "string list" where
  "dist_descending =
     [''chr1'' @ tab @ ''10'' @ tab @ ''0.97'' @ newline,
      ''total'' @ tab @ ''50000'' @ tab @ ''0.01'' @ newline,
      ''total'' @ tab @ ''10'' @ tab @ ''0.95'' @ newline]"

section \<open>Verified properties\<close>

subsection \<open>Interval Classifier\<close>

lemma count_offtarget_value:
  assumes "number_of_mapped_reads e bam_file False None None = Inr mapped_unique"
    and "number_of_mapped_reads e bam_file False bed_file (Some target_name) = Inr ontarget"
  shows "count_offtarget e data bam_file bed_file target_name w =
           (Inr (if mapped_unique \<noteq> 0
                 then of_int (mapped_unique - ontarget) / of_int mapped_unique else 0),
            emit (CountedReads bam_file False bed_file (Some target_name))
              (emit (CountedReads bam_file False None None) w))"
  using assms by (simp add: count_offtarget_def Let_def)

lemma ratio_in_unit_interval:
  fixes m k :: int
  assumes "0 \<le> k" "k \<le> m" "0 < m"
  shows "0 \<le> (of_int (m - k) / of_int m :: rat)" "(of_int (m - k) / of_int m :: rat) \<le> 1"
  using assms by (simp_all add: divide_le_eq_1)

text \<open>
  C1. When \<open>coverage_interval\<close> is unset, the reference has a non-zero total size and the
  external collaborators report the region size and the read counts, \<open>assign_interval\<close>
  writes the label of the decision table: \<open>genome\<close> when the covered share of the genome
  is above 0.40, whatever the offtarget share; else \<open>regional\<close> when no target region file
  was supplied; else \<open>regional\<close> when the offtarget share is above 0.01 and \<open>amplicon\<close>
  otherwise.
\<close>

theorem assign_interval_decision_table:
  assumes unset: "\<not> truthy (coverage_interval data)"
    and size: "total_coverage e (if truthy (variant_regions_merged data)
                                 then variant_regions_merged data else sample_callable data)
               = Inr callable_size"
    and contigs: "file_contigs e (ref_file data) = Inr contigs"
    and total: "sum_list (map snd contigs) = total_size" "total_size \<noteq> 0"
    and mapped: "number_of_mapped_reads e (py_or (align_bam data) (work_bam data)) False None None
                 = Inr mapped_unique"
    and ontarget: "number_of_mapped_reads e (py_or (align_bam data) (work_bam data)) False
                     (py_or (variant_regions_merged data) (sample_callable data))
                     (Some ''variant_regions'') = Inr ontarget"
  shows "\<exists>w'. assign_interval e data w =
           (Inr (data\<lparr>coverage_interval :=
                   Some (spec_interval_label (of_int callable_size / of_int total_size)
                           (truthy (variant_regions_merged data))
                           (if mapped_unique \<noteq> 0
                            then of_int (mapped_unique - ontarget) / of_int mapped_unique
                            else 0))\<rparr>), w')"
proof (cases "truthy (variant_regions_merged data)")
  case True
  with assms show ?thesis
    by (simp add: assign_interval_def Let_def record_interval_def spec_interval_label_def
        GENOME_COV_THRESH_def OFFTARGET_THRESH_def count_offtarget_value)
next
  case False
  with assms show ?thesis
    by (simp add: assign_interval_def Let_def record_interval_def spec_interval_label_def
        GENOME_COV_THRESH_def OFFTARGET_THRESH_def)
qed

theorem assign_interval_decision_table_witness:
  "\<not> truthy (coverage_interval demo_data)
   \<and> total_coverage demo_env (if truthy (variant_regions_merged demo_data)
                               then variant_regions_merged demo_data else sample_callable demo_data)
       = Inr 1000
   \<and> file_contigs demo_env (ref_file demo_data) = Inr [(''chr1'', 100000)]
   \<and> sum_list (map snd [(''chr1'', 100000::int)]) = 100000 \<and> (100000::int) \<noteq> 0
   \<and> number_of_mapped_reads demo_env (py_or (align_bam demo_data) (work_bam demo_data)) False
        None None = Inr 200
   \<and> number_of_mapped_reads demo_env (py_or (align_bam demo_data) (work_bam demo_data)) False
        (py_or (variant_regions_merged demo_data) (sample_callable demo_data))
        (Some ''variant_regions'') = Inr 150
   \<and> (\<exists>w'. assign_interval demo_env demo_data demo_world =
          (Inr (demo_data\<lparr>coverage_interval := Some ''regional''\<rparr>), w'))"
  using assign_interval_decision_table[of demo_data demo_env 1000 "[(''chr1'', 100000)]" 100000
      200 150 demo_world]
  by (simp add: demo_env_def demo_data_def truthy_def py_or_def spec_interval_label_def)

text \<open>
  C5. For read counts with \<open>0 \<le> ontarget \<le> mapped_unique\<close>, \<open>_count_offtarget\<close> returns
  \<open>(mapped_unique - ontarget) / mapped_unique\<close> when \<open>mapped_unique > 0\<close> and \<open>0\<close> when
  \<open>mapped_unique = 0\<close>; it does not raise, and the value lies in \<open>[0, 1]\<close>.
\<close>

theorem count_offtarget_ratio_bounded:
  assumes "number_of_mapped_reads e bam_file False None None = Inr mapped_unique"
    and "number_of_mapped_reads e bam_file False bed_file (Some target_name) = Inr ontarget"
    and "0 \<le> ontarget" and "ontarget \<le> mapped_unique"
  shows "\<exists>pct w'. count_offtarget e data bam_file bed_file target_name w = (Inr pct, w')
           \<and> pct = (if 0 < mapped_unique
                    then of_int (mapped_unique - ontarget) / of_int mapped_unique else 0)
           \<and> 0 \<le> pct \<and> pct \<le> 1"
proof (cases "0 < mapped_unique")
  case True
  with assms ratio_in_unit_interval[of ontarget mapped_unique] show ?thesis
    by (simp add: count_offtarget_value)
next
  case False
  with assms have "mapped_unique = 0" by simp
  with assms show ?thesis by (simp add: count_offtarget_value)
qed

theorem count_offtarget_ratio_bounded_witness:
  "number_of_mapped_reads demo_env (Some ''/d/s1.bam'') False None None = Inr 200
   \<and> number_of_mapped_reads demo_env (Some ''/d/s1.bam'') False (Some ''/d/regions.bed'')
        (Some ''variant_regions'') = Inr 150
   \<and> (0::int) \<le> 150 \<and> (150::int) \<le> 200
   \<and> (\<exists>pct w'. count_offtarget demo_env demo_data (Some ''/d/s1.bam'') (Some ''/d/regions.bed'')
                   ''variant_regions'' demo_world = (Inr pct, w')
          \<and> pct = 1 / 4 \<and> 0 \<le> pct \<and> pct \<le> 1)"
  using count_offtarget_ratio_bounded[of demo_env "Some ''/d/s1.bam''" 200 "Some ''/d/regions.bed''"
      "''variant_regions''" 150 demo_data demo_world]
  by (simp add: demo_env_def)

text \<open>
  C9. When \<open>coverage_interval\<close> is already set (a non-empty label), \<open>assign_interval\<close>
  returns the sample unchanged and leaves the world unchanged: no read is counted and no
  log line is written.
\<close>

theorem assign_interval_noop_when_set:
  assumes "truthy (coverage_interval data)"
  shows "assign_interval e data w = (Inr data, w)"
  using assms by (simp add: assign_interval_def)

theorem assign_interval_noop_when_set_witness:
  "truthy (coverage_interval (demo_data\<lparr>coverage_interval := Some ''amplicon''\<rparr>))
   \<and> assign_interval demo_env (demo_data\<lparr>coverage_interval := Some ''amplicon''\<rparr>) demo_world
       = (Inr (demo_data\<lparr>coverage_interval := Some ''amplicon''\<rparr>), demo_world)"
  using assign_interval_noop_when_set[of "demo_data\<lparr>coverage_interval := Some ''amplicon''\<rparr>"
      demo_env demo_world]
  by (simp add: truthy_def)

subsection \<open>Depth Orchestrator\<close>

lemma files_emit [simp]: "files (emit ev w) = files w"
  by (simp add: emit_def)

lemma clock_emit [simp]: "clock (emit ev w) = clock w"
  by (simp add: emit_def)

lemma basename_no_slash: "CHR ''/'' \<notin> set (basename p)"
  by (auto simp: basename_def dest: set_takeWhileD)

lemma path_join_plain:
  assumes "d \<noteq> []" and "last d \<noteq> CHR ''/''" and "CHR ''/'' \<notin> set b"
  shows "path_join d b = d @ CHR ''/'' # b"
  using assms by (cases b) (auto simp: path_join_def)

lemma dirname_of_join:
  assumes "d \<noteq> []" and "last d \<noteq> CHR ''/''" and "CHR ''/'' \<notin> set b"
  shows "dirname (d @ CHR ''/'' # b) = d"
proof (cases d rule: rev_cases)
  case Nil
  with assms(1) show ?thesis by simp
next
  case (snoc xs x)
  with assms(2) have x: "x \<noteq> CHR ''/''" by simp
  have drop: "dropWhile (\<lambda>c. c \<noteq> CHR ''/'') (rev b @ CHR ''/'' # x # rev xs)
                = CHR ''/'' # x # rev xs"
    using assms(3) by (auto simp: dropWhile_append3)
  show ?thesis
    unfolding dirname_def Let_def snoc
    using x drop by (simp add: list_all_iff)
qed

lemma tx_prefix_in_tx_dir:
  assumes "tx_dir e \<noteq> []" and "last (tx_dir e) \<noteq> CHR ''/''"
  shows "path_join (dirname (tx_path e final)) (basename q) = tx_dir e @ CHR ''/'' # basename q"
proof -
  have "tx_path e final = tx_dir e @ CHR ''/'' # basename final"
    using assms by (simp add: tx_path_def path_join_plain basename_no_slash)
  then have "dirname (tx_path e final) = tx_dir e"
    using assms by (simp add: dirname_of_join basename_no_slash)
  then show ?thesis
    using assms by (simp add: path_join_plain basename_no_slash)
qed

lemma in_tx_dir_below: "in_tx_dir e (tx_dir e @ CHR ''/'' # rest)"
  by (simp add: in_tx_dir_def)

lemma written_paths_below:
  assumes "map_of (map (\<lambda>(suffix, c). (pre @ suffix, f c)) written) p = Some v"
  shows "\<exists>suffix. p = pre @ suffix"
  using assms by (auto dest!: map_of_SomeD)

lemma do_run_failure:
  assumes "mosdepth e cmd (files w) = (False, written)"
  shows "\<exists>w'. do_run e cmd message (tx_dir e @ CHR ''/'' # q) w = (Inl CalledProcessError, w')
           \<and> (\<forall>p. \<not> in_tx_dir e p \<longrightarrow> files w' p = files w p)
           \<and> trace w' = trace w @ [Ran cmd message]"
proof -
  let ?m = "map_of (map (\<lambda>(suffix, c). ((tx_dir e @ CHR ''/'' # q) @ suffix,
                                          \<lparr>mtime = clock (emit (Ran cmd message) w), content = c\<rparr>))
                        written)"
  have "?m p = None" if "\<not> in_tx_dir e p" for p
  proof (cases "?m p")
    case None
    then show ?thesis .
  next
    case (Some v)
    from written_paths_below[OF Some] obtain suffix where "p = (tx_dir e @ CHR ''/'' # q) @ suffix"
      by blast
    with in_tx_dir_below[of e "q @ suffix"] that show ?thesis by simp
  qed
  with assms show ?thesis
    by (simp add: do_run_def Let_def map_add_def emit_def)
qed

lemma outside_tx_dir_kept:
  assumes "\<not> in_tx_dir e p"
  shows "files (remove_tx_dir e w) p = files w p"
  using assms by (simp add: remove_tx_dir_def)

lemma stale_kept:
  assumes "\<not> file_uptodate w fname cmp_fname"
    and "files w' fname = files w fname"
    and "\<And>c. cmp_fname = Some c \<Longrightarrow> files w' c = files w c \<or> files w' c = None"
  shows "\<not> file_uptodate w' fname cmp_fname"
  using assms by (fastforce simp: file_uptodate_def split: option.splits)

text \<open>
  C3. Let the temporary directory of the transaction have a plain name and hold none of
  the final paths. When the distribution artifact is stale and the depth tool exits with
  an error on the command issued, whatever files it has written by then, \<open>run_mosdepth\<close>
  raises, and the file system at every final path (distribution, per-base, regions,
  quantized, thresholds), as at every path outside the temporary directory, is what it
  was: nothing is created or modified there, the distribution artifact is still stale,
  and a retry runs the tool again.
\<close>

theorem run_mosdepth_tool_failure_keeps_files:
  assumes tx_named: "tx_dir e \<noteq> []" "last (tx_dir e) \<noteq> CHR ''/''"
    and out: "out = mosdepth_out data target_name bed_file with_per_base quant thresh"
    and bam: "bam_file = py_or (align_bam data) (work_bam data)"
    and outside: "list_all (\<lambda>p. \<not> in_tx_dir e p) (final_paths out)"
    and stale: "\<not> file_uptodate w (dist out) bam_file"
    and cmd: "cmd = mosdepth_cmd data bed_file with_per_base quant thresh
                (tx_dir e @ CHR ''/'' # basename (mosdepth_prefix data target_name)) bam_file"
    and message: "format_locals e (mosdepth_message data target_name) = Inr message"
    and fails: "mosdepth e cmd (files w) = (False, written)"
  shows "\<exists>w'. run_mosdepth e data target_name bed_file with_per_base quant thresh w
                = (Inl CalledProcessError, w')
           \<and> list_all (\<lambda>p. files w' p = files w p) (final_paths out)
           \<and> (\<forall>p. \<not> in_tx_dir e p \<longrightarrow> files w' p = files w p)
           \<and> \<not> file_uptodate w' (dist out) bam_file
           \<and> trace w' = trace w @ [Ran cmd message]"
proof -
  let ?q = "basename (mosdepth_prefix data target_name)"
  from do_run_failure[OF fails, of message ?q] obtain w1 where
    run1: "do_run e cmd message (tx_dir e @ CHR ''/'' # ?q) w = (Inl CalledProcessError, w1)"
    and kept1: "\<forall>p. \<not> in_tx_dir e p \<longrightarrow> files w1 p = files w p"
    and trace1: "trace w1 = trace w @ [Ran cmd message]"
    by blast
  let ?w' = "remove_tx_dir e w1"
  have kept: "files ?w' p = files w p" if "\<not> in_tx_dir e p" for p
    using that kept1 by (simp add: outside_tx_dir_kept)
  have body: "mosdepth_body e data target_name bed_file with_per_base quant thresh out bam_file
                (tx_path e (dist out)) w = (Inl CalledProcessError, w1)"
    using cmd message run1 tx_prefix_in_tx_dir[OF tx_named, of "dist out" "mosdepth_prefix data target_name"]
    by (simp add: mosdepth_body_def Let_def)
  have result: "run_mosdepth e data target_name bed_file with_per_base quant thresh w
                  = (Inl CalledProcessError, ?w')"
    using stale body unfolding out bam
    by (simp add: run_mosdepth_def Let_def file_transaction_def)
  have finals: "list_all (\<lambda>p. files ?w' p = files w p) (final_paths out)"
    using outside kept by (simp add: list_all_iff)
  have dist_out: "\<not> in_tx_dir e (dist out)"
    using outside by (simp add: final_paths_def)
  have other: "files ?w' c = files w c \<or> files ?w' c = None" for c
    using kept[of c] by (cases "in_tx_dir e c") (simp_all add: remove_tx_dir_def)
  have still_stale: "\<not> file_uptodate ?w' (dist out) bam_file"
    using stale kept[OF dist_out] other by (rule stale_kept)
  have "trace ?w' = trace w @ [Ran cmd message]"
    using trace1 by (simp add: remove_tx_dir_def)
  with result finals kept still_stale show ?thesis by blast
qed

theorem run_mosdepth_tool_failure_keeps_files_witness:
  "tx_dir demo_env \<noteq> [] \<and> last (tx_dir demo_env) \<noteq> CHR ''/''
   \<and> list_all (\<lambda>p. \<not> in_tx_dir demo_env p)
        (final_paths (mosdepth_out demo_data ''coverage'' (Some ''/d/cov.bed'') False None
                        (Some DEPTH_THRESHOLDS)))
   \<and> \<not> file_uptodate demo_world
         (dist (mosdepth_out demo_data ''coverage'' (Some ''/d/cov.bed'') False None
                  (Some DEPTH_THRESHOLDS)))
         (py_or (align_bam demo_data) (work_bam demo_data))
   \<and> format_locals demo_env (mosdepth_message demo_data ''coverage'')
       = Inr ''Calculating coverage: s1 coverage''
   \<and> mosdepth demo_env
         (mosdepth_cmd demo_data (Some ''/d/cov.bed'') False None (Some DEPTH_THRESHOLDS)
            (tx_dir demo_env @ CHR ''/'' # basename (mosdepth_prefix demo_data ''coverage''))
            (py_or (align_bam demo_data) (work_bam demo_data)))
         (files demo_world)
       = (False, [(''.mosdepth.dist.txt'', Lines [''total 50000 0.01''])])
   \<and> (\<exists>w'. run_mosdepth demo_env demo_data ''coverage'' (Some ''/d/cov.bed'') False None
                (Some DEPTH_THRESHOLDS) demo_world
              = (Inl CalledProcessError, w')
          \<and> list_all (\<lambda>p. files w' p = files demo_world p)
               (final_paths (mosdepth_out demo_data ''coverage'' (Some ''/d/cov.bed'') False None
                               (Some DEPTH_THRESHOLDS)))
          \<and> \<not> file_uptodate w'
                (dist (mosdepth_out demo_data ''coverage'' (Some ''/d/cov.bed'') False None
                         (Some DEPTH_THRESHOLDS)))
                (py_or (align_bam demo_data) (work_bam demo_data)))"
proof -
  let ?out = "mosdepth_out demo_data ''coverage'' (Some ''/d/cov.bed'') False None
                (Some DEPTH_THRESHOLDS)"
  let ?bam = "py_or (align_bam demo_data) (work_bam demo_data)"
  have tx1: "tx_dir demo_env \<noteq> []" by (simp add: demo_env_def)
  have tx2: "last (tx_dir demo_env) \<noteq> CHR ''/''" by (simp add: demo_env_def)
  have outside: "list_all (\<lambda>p. \<not> in_tx_dir demo_env p) (final_paths ?out)" by code_simp
  have stale: "\<not> file_uptodate demo_world (dist ?out) ?bam" by code_simp
  have message: "format_locals demo_env (mosdepth_message demo_data ''coverage'')
                   = Inr ''Calculating coverage: s1 coverage''"
    by code_simp
  have fails: "mosdepth demo_env
         (mosdepth_cmd demo_data (Some ''/d/cov.bed'') False None (Some DEPTH_THRESHOLDS)
            (tx_dir demo_env @ CHR ''/'' # basename (mosdepth_prefix demo_data ''coverage'')) ?bam)
         (files demo_world)
       = (False, [(''.mosdepth.dist.txt'', Lines [''total 50000 0.01''])])"
    by (simp add: demo_env_def)
  from run_mosdepth_tool_failure_keeps_files[OF tx1 tx2 refl refl outside stale refl message fails]
    tx1 tx2 outside stale message fails
  show ?thesis by blast
qed

text \<open>
  C4. When the distribution artifact is fresh against the alignment file, \<open>run_mosdepth\<close>
  returns the artifact paths and the world it was given: the depth tool is not run again
  (no command joins the trace) and no file or modification time changes, whatever the
  tool would do.
\<close>

theorem run_mosdepth_fresh_is_identity:
  assumes "file_uptodate w
             (dist (mosdepth_out data target_name bed_file with_per_base quant thresh))
             (py_or (align_bam data) (work_bam data))"
  shows "run_mosdepth e data target_name bed_file with_per_base quant thresh w
           = (Inr (mosdepth_out data target_name bed_file with_per_base quant thresh), w)"
  using assms by (simp add: run_mosdepth_def Let_def)

theorem run_mosdepth_fresh_is_identity_witness:
  "file_uptodate demo_after_run
     (dist (mosdepth_out demo_data ''coverage'' (Some ''/d/cov.bed'') False None
              (Some DEPTH_THRESHOLDS)))
     (py_or (align_bam demo_data) (work_bam demo_data))
   \<and> run_mosdepth demo_tool_env demo_data ''coverage'' (Some ''/d/cov.bed'') False None
         (Some DEPTH_THRESHOLDS) demo_after_run
       = (Inr (mosdepth_out demo_data ''coverage'' (Some ''/d/cov.bed'') False None
                 (Some DEPTH_THRESHOLDS)), demo_after_run)"
proof -
  have fresh: "file_uptodate demo_after_run
     (dist (mosdepth_out demo_data ''coverage'' (Some ''/d/cov.bed'') False None
              (Some DEPTH_THRESHOLDS)))
     (py_or (align_bam demo_data) (work_bam demo_data))"
    by code_simp
  from run_mosdepth_fresh_is_identity[OF fresh, of demo_tool_env] fresh
  show ?thesis by blast
qed

text \<open>
  C8. The read-exclusion flag on the command line is 1804. It is the bitwise OR of the
  unmapped (0x4), secondary (0x100), QC-fail (0x200) and duplicate (0x400) bits and of
  the mate-unmapped bit (0x8); it differs from the OR of the four bits alone (1796) that
  the docstring of \<^verbatim>\<open>calculate\<close> names.
\<close>

theorem exclude_flag_has_mate_unmapped_bit:
  "mosdepth_cmd demo_data None False None None ''/tmp/tx/s1-sv_regions'' (Some ''/d/s1.bam'')
     = ''mosdepth -t 1 -F 1804  --no-per-base   /tmp/tx/s1-sv_regions /d/s1.bam ''
   \<and> (word_of_int exclude_flag :: 16 word)
       = BAM_FUNMAP OR BAM_FMUNMAP OR BAM_FSECONDARY OR BAM_FQCFAIL OR BAM_FDUP
   \<and> (word_of_int exclude_flag :: 16 word) \<noteq> BAM_FUNMAP OR BAM_FSECONDARY OR BAM_FQCFAIL OR BAM_FDUP"
proof (intro conjI)
  show "mosdepth_cmd demo_data None False None None ''/tmp/tx/s1-sv_regions'' (Some ''/d/s1.bam'')
     = ''mosdepth -t 1 -F 1804  --no-per-base   /tmp/tx/s1-sv_regions /d/s1.bam ''"
    by code_simp
  show "(word_of_int exclude_flag :: 16 word)
       = BAM_FUNMAP OR BAM_FMUNMAP OR BAM_FSECONDARY OR BAM_FQCFAIL OR BAM_FDUP"
    by (simp add: exclude_flag_def BAM_FUNMAP_def BAM_FMUNMAP_def BAM_FSECONDARY_def
        BAM_FQCFAIL_def BAM_FDUP_def)
  show "(word_of_int exclude_flag :: 16 word) \<noteq> BAM_FUNMAP OR BAM_FSECONDARY OR BAM_FQCFAIL OR BAM_FDUP"
    by (simp add: exclude_flag_def BAM_FUNMAP_def BAM_FSECONDARY_def
        BAM_FQCFAIL_def BAM_FDUP_def)
qed

lemma create_genome_regions_returns:
  "fst (create_genome_regions e data w) = Inr (path_join (coverage_work_dir data) ''target-genome.bed'')"
  by (simp add: create_genome_regions_def Let_def file_transaction_def
      split: option.splits)

lemma subset_to_variant_regions_returns:
  assumes "bed_intersect e (files w) cf vr = Inr c"
  shows "\<exists>w'. subset_to_variant_regions e (Some cf) vr data w
           = (Inr (fst (splitext_plus e cf) @ ''-vrsubset.bed''), w')"
  using assms
  by (simp add: subset_to_variant_regions_def Let_def file_transaction_def
      split: option.splits)

lemma calculate_with_fresh:
  assumes "file_uptodate w (legacy_callable_file data) bam_file"
    and "bed_intersect e (files w) (legacy_callable_file data) vr = Inr c"
  shows "\<exists>w'. calculate_with e bam_file data vr w
           = (Inr (fst (splitext_plus e (legacy_callable_file data)) @ ''-vrsubset.bed'', Map.empty), w')"
proof -
  from subset_to_variant_regions_returns[OF assms(2)] obtain w' where
    "subset_to_variant_regions e (Some (legacy_callable_file data)) vr data w
       = (Inr (fst (splitext_plus e (legacy_callable_file data)) @ ''-vrsubset.bed''), w')"
    by blast
  with assms(1) show ?thesis
    by (simp add: calculate_with_def Let_def)
qed

text \<open>
  C10. When the callable file of the sample is fresh against the alignment file at the
  time \<open>calculate\<close> checks it, and the intersection with the target regions succeeds,
  \<open>calculate\<close> returns the subsetted callable path and an empty mapping of depth files:
  no path of a per-target artifact is reported, whatever files the world holds.
\<close>

theorem calculate_fresh_returns_no_depth_files:
  assumes w1: "w1 = (if truthy (variant_regions_merged data) then w
                     else snd (create_genome_regions e data w))"
    and vr: "vr = (if truthy (variant_regions_merged data) then variant_regions_merged data
                   else Some (path_join (coverage_work_dir data) ''target-genome.bed''))"
    and fresh: "file_uptodate w1 (legacy_callable_file data) bam_file"
    and inter: "bed_intersect e (files w1) (legacy_callable_file data) vr = Inr c"
  shows "\<exists>w'. calculate e bam_file data w
           = (Inr (fst (splitext_plus e (legacy_callable_file data)) @ ''-vrsubset.bed'', Map.empty), w')"
proof (cases "truthy (variant_regions_merged data)")
  case True
  with assms calculate_with_fresh[of w data bam_file e "variant_regions_merged data" c]
  show ?thesis by (simp add: calculate_def Let_def)
next
  case False
  obtain r w0 where r: "create_genome_regions e data w = (r, w0)"
    by (cases "create_genome_regions e data w")
  with create_genome_regions_returns[of e data w]
  have r': "r = Inr (path_join (coverage_work_dir data) ''target-genome.bed'')" by simp
  from False w1 r have "w1 = w0" by simp
  with False assms r r'
    calculate_with_fresh[of w0 data bam_file e
      "Some (path_join (coverage_work_dir data) ''target-genome.bed'')" c]
  show ?thesis by (simp add: calculate_def Let_def)
qed

theorem calculate_fresh_returns_no_depth_files_witness:
  "demo_world = (if truthy (variant_regions_merged demo_data) then demo_world
                 else snd (create_genome_regions demo_env demo_data demo_world))
   \<and> Some ''/d/regions.bed''
       = (if truthy (variant_regions_merged demo_data) then variant_regions_merged demo_data
          else Some (path_join (coverage_work_dir demo_data) ''target-genome.bed''))
   \<and> file_uptodate demo_world (legacy_callable_file demo_data) (Some ''/d/s1.bam'')
   \<and> bed_intersect demo_env (files demo_world) (legacy_callable_file demo_data)
         (Some ''/d/regions.bed'') = Inr (Lines [])
   \<and> (\<exists>w'. calculate demo_env (Some ''/d/s1.bam'') demo_data demo_world
          = (Inr (''/w/align/s1/s1-coverage.callable-vrsubset.bed'', Map.empty), w'))"
proof -
  have w1: "demo_world = (if truthy (variant_regions_merged demo_data) then demo_world
                 else snd (create_genome_regions demo_env demo_data demo_world))"
    by (simp add: demo_data_def truthy_def)
  have vr: "Some ''/d/regions.bed''
       = (if truthy (variant_regions_merged demo_data) then variant_regions_merged demo_data
          else Some (path_join (coverage_work_dir demo_data) ''target-genome.bed''))"
    by (simp add: demo_data_def truthy_def)
  have fresh: "file_uptodate demo_world (legacy_callable_file demo_data) (Some ''/d/s1.bam'')"
    by code_simp
  have inter: "bed_intersect demo_env (files demo_world) (legacy_callable_file demo_data)
         (Some ''/d/regions.bed'') = Inr (Lines [])"
    by (simp add: demo_env_def)
  have out: "fst (splitext_plus demo_env (legacy_callable_file demo_data)) @ ''-vrsubset.bed''
       = ''/w/align/s1/s1-coverage.callable-vrsubset.bed''"
    by code_simp
  from calculate_fresh_returns_no_depth_files[OF w1 vr fresh inter] w1 vr fresh inter
  show ?thesis unfolding out by blast
qed

subsection \<open>Coverage Cache\<close>

lemma map_of_dict_set_same: "map_of (dict_set k v d) k = Some v"
  by (induction d) auto

lemma read_cache_after_write:
  assumes "list_all (file_uptodate (write_cache cache cache_file w) cache_file) (filter truthy deps)"
  shows "read_cache (write_cache cache cache_file w) cache_file deps = Inr (Some cache)"
  using assms by (simp add: read_cache_def write_cache_def write_file_def Let_def)

text \<open>
  C7. Round trip of the cache: when a call of \<open>get_average_coverage\<close> has returned \<open>v\<close>
  and the cache file is fresh against the alignment and region files in the world that
  call left, a second call returns the same \<open>v\<close> and leaves that world unchanged (the
  cache file is not rewritten, no tool is run), whatever the external collaborators
  would compute.
\<close>

theorem get_average_coverage_round_trip:
  assumes first: "get_average_coverage e target_name bed_file data bam_arg w0 = (Inr v, w)"
    and fresh: "list_all (file_uptodate w (get_cache_file data target_name))
                  (filter truthy
                     [if \<not> truthy bam_arg then py_or (align_bam data) (work_bam data) else bam_arg,
                      bed_file])"
  shows "get_average_coverage e' target_name bed_file data bam_arg w = (Inr v, w)"
proof -
  let ?bam = "if \<not> truthy bam_arg then py_or (align_bam data) (work_bam data) else bam_arg"
  let ?cf = "get_cache_file data target_name"
  from first obtain cache where rc0: "read_cache w0 ?cf [?bam, bed_file] = Inr (Some cache)"
    by (auto simp: get_average_coverage_def Let_def split: sum.splits option.splits)
  show ?thesis
  proof (cases "map_of cache ''avg_coverage''")
    case (Some sv)
    with first rc0 have same: "w = w0" and val: "int_of_scalar sv = Inr v"
      by (auto simp: get_average_coverage_def Let_def split: sum.splits)
    from rc0 Some val same show ?thesis
      by (simp add: get_average_coverage_def Let_def)
  next
    case None
    with first rc0 obtain avg_cov w1 where
      v: "v = int_of_float avg_cov"
      and w: "w = write_cache (dict_set ''avg_coverage'' (YInt v) cache) ?cf w1"
      by (auto simp: get_average_coverage_def Let_def split: sum.splits prod.splits if_splits)
    from fresh w have
      "read_cache w ?cf [?bam, bed_file] = Inr (Some (dict_set ''avg_coverage'' (YInt v) cache))"
      using read_cache_after_write[of "dict_set ''avg_coverage'' (YInt v) cache" ?cf w1 "[?bam, bed_file]"]
      by simp
    then show ?thesis
      by (simp add: get_average_coverage_def Let_def map_of_dict_set_same int_of_scalar_def)
  qed
qed

theorem get_average_coverage_round_trip_witness:
  "get_average_coverage demo_tool_env ''coverage'' (Some ''/d/cov.bed'') demo_data None demo_world
     = (Inr 20, demo_after_query)
   \<and> list_all (file_uptodate demo_after_query (get_cache_file demo_data ''coverage''))
         (filter truthy
            [if \<not> truthy None then py_or (align_bam demo_data) (work_bam demo_data) else None,
             Some ''/d/cov.bed''])
   \<and> get_average_coverage demo_env ''coverage'' (Some ''/d/cov.bed'') demo_data None
         demo_after_query
       = (Inr 20, demo_after_query)"
proof -
  have val: "fst (get_average_coverage demo_tool_env ''coverage'' (Some ''/d/cov.bed'') demo_data
                    None demo_world) = Inr 20"
    by code_simp
  then have first: "get_average_coverage demo_tool_env ''coverage'' (Some ''/d/cov.bed'')
                      demo_data None demo_world = (Inr 20, demo_after_query)"
    by (simp add: demo_after_query_def prod_eq_iff)
  have fresh: "list_all (file_uptodate demo_after_query (get_cache_file demo_data ''coverage''))
         (filter truthy
            [if \<not> truthy None then py_or (align_bam demo_data) (work_bam demo_data) else None,
             Some ''/d/cov.bed''])"
    by code_simp
  from get_average_coverage_round_trip[OF first fresh, of demo_env] first fresh
  show ?thesis by blast
qed

lemma bed_loop_rows:
  assumes "map region_row (filter (\<lambda>l. \<not> startswith ''#'' l) ls) = map Some rows"
  shows "bed_loop ls avg_covs total_len =
           Inr (avg_covs @ map (\<lambda>(start, stop, d). d * of_int (stop - start)) rows,
                total_len + sum_list (map (\<lambda>(start, stop, d). stop - start) rows))"
  using assms
proof (induction ls arbitrary: avg_covs total_len rows)
  case Nil
  then show ?case by simp
next
  case (Cons l ls)
  show ?case
  proof (cases "startswith ''#'' l")
    case True
    with Cons show ?thesis by simp
  next
    case False
    with Cons.prems obtain r rows' where rows: "rows = r # rows'"
      and r: "region_row l = Some r"
      and rest: "map region_row (filter (\<lambda>l. \<not> startswith ''#'' l) ls) = map Some rows'"
      by (cases rows) auto
    obtain start stop d where rd: "r = (start, stop, d)" by (cases r)
    from False r rd rows Cons.IH[OF rest] show ?thesis
      by (simp add: Let_def algebra_simps)
  qed
qed

lemma region_lengths_nonneg:
  fixes rows :: "(int \<times> int \<times> pyfloat) list"
  assumes "list_all (\<lambda>(start, stop, d). start \<le> stop) rows"
  shows "0 \<le> sum_list (map (\<lambda>(start, stop, d). stop - start) rows)"
  using assms by (induction rows) (auto)

text \<open>
  C6. For a region-depth file whose lines that are not comments parse as rows
  \<open>(start, end, depth)\<close> with \<open>start \<le> end\<close>, the average is
  \<open>sum (depth * (end - start)) / sum (end - start)\<close>, and \<open>0\<close> when the total length is
  \<open>0\<close>. Two rows of length 100 at depths 10 and 30 give 20.
\<close>

theorem bed_average_is_weighted_mean:
  assumes parsed: "map region_row (filter (\<lambda>l. \<not> startswith ''#'' l) ls) = map Some rows"
    and ordered: "list_all (\<lambda>(start, stop, d). start \<le> stop) rows"
  shows "bed_average ls =
           Inr (if sum_list (map (\<lambda>(start, stop, d). stop - start) rows) = 0 then 0
                else sum_list (map (\<lambda>(start, stop, d). d * of_int (stop - start)) rows)
                       / of_int (sum_list (map (\<lambda>(start, stop, d). stop - start) rows)))"
  using bed_loop_rows[OF parsed, of "[]" 0] region_lengths_nonneg[OF ordered]
  by (simp add: bed_average_def)

theorem bed_average_is_weighted_mean_witness:
  "map region_row (filter (\<lambda>l. \<not> startswith ''#'' l) two_regions)
     = map Some [(0, 100, 10), (100, 200, 30)]
   \<and> list_all (\<lambda>(start, stop, d). start \<le> stop)
         [(0 :: int, 100 :: int, 10 :: pyfloat), (100, 200, 30)]
   \<and> bed_average two_regions = Inr 20"
proof -
  have h1: "map region_row (filter (\<lambda>l. \<not> startswith ''#'' l) two_regions)
     = map Some [(0, 100, 10), (100, 200, 30)]"
    by code_simp
  have h2: "list_all (\<lambda>(start, stop, d). start \<le> stop) [(0::int, 100::int, 10::pyfloat), (100, 200, 30)]"
    by simp
  from bed_average_is_weighted_mean[OF h1 h2] h1 h2 show ?thesis by simp
qed

subsection \<open>Percentile Aggregator\<close>

lemma py_min_Min: "cutoffs \<noteq> [] \<Longrightarrow> py_min cutoffs = Inr (Min (set cutoffs))"
  by (cases cutoffs) (simp_all add: py_min_def Min.set_eq_fold [symmetric])

lemma py_max_Max: "cutoffs \<noteq> [] \<Longrightarrow> py_max cutoffs = Inr (Max (set cutoffs))"
  by (cases cutoffs) (simp_all add: py_max_def Max.set_eq_fold [symmetric])

lemma percentile_step_total:
  assumes "total_row l = Some r" and "cutoffs \<noteq> []"
  shows "percentile_step cutoffs sample l (rows, count, pct) =
           Inr (rows @ (if in_cutoffs cutoffs r then [summary_row sample r] else []),
                Some (PInt (fst r)), Some (fmt_1f (snd r * 100)))"
  using assms
  by (auto simp: percentile_step_def total_row_def py_min_Min py_max_Max in_cutoffs_def
      summary_row_def Let_def split: list.splits option.splits if_splits)

lemma percentile_step_other:
  assumes "dist_line_ok l" and "total_row l = None"
  shows "\<exists>count' pct'. percentile_step cutoffs sample l (rows, count, pct) = Inr (rows, count', pct')"
  using assms
  by (auto simp: percentile_step_def total_row_def dist_line_ok_def
      split: list.splits option.splits if_splits)

lemma percentile_loop_rows:
  assumes "list_all dist_line_ok ls" and "cutoffs \<noteq> []"
  shows "\<exists>count' pct'. percentile_loop cutoffs sample ls (rows, count, pct) =
           Inr (rows @ map (summary_row sample)
                         (filter (in_cutoffs cutoffs) (List.map_filter total_row ls)),
                count', pct')"
  using assms
proof (induction ls arbitrary: rows count pct)
  case Nil
  then show ?case by simp
next
  case (Cons l ls)
  then have ok: "dist_line_ok l" and rest: "list_all dist_line_ok ls" by simp_all
  show ?case
  proof (cases "total_row l")
    case None
    from percentile_step_other[OF ok None, of cutoffs sample rows count pct]
    obtain c1 p1 where "percentile_step cutoffs sample l (rows, count, pct) = Inr (rows, c1, p1)"
      by blast
    with None Cons.IH[OF rest Cons.prems(2), of rows c1 p1] show ?thesis
      by simp
  next
    case (Some r)
    from percentile_step_total[OF Some Cons.prems(2), of sample rows count pct]
      Cons.IH[OF rest Cons.prems(2),
        of "rows @ (if in_cutoffs cutoffs r then [summary_row sample r] else [])"
           "Some (PInt (fst r))" "Some (fmt_1f (snd r * 100))"]
      Some
    show ?thesis by auto
  qed
qed

lemma percentile_loop_append:
  "percentile_loop cutoffs sample (xs @ ys) st =
     (case percentile_loop cutoffs sample xs st of
        Inl x \<Rightarrow> Inl x
      | Inr st' \<Rightarrow> percentile_loop cutoffs sample ys st')"
  by (induction xs arbitrary: st) (auto split: sum.splits)

lemma map_filter_append:
  "List.map_filter f (xs @ ys) = List.map_filter f xs @ List.map_filter f ys"
  by (simp add: List.map_filter_def)

text \<open>
  C2, as stated, fails. With the cutoffs 1, ..., 50000 and the rows \<^verbatim>\<open>total 10 0.95\<close> and
  \<^verbatim>\<open>total 50000 0.01\<close> in this order, the smallest count among the \<^verbatim>\<open>total\<close> rows is
  10 with 95.0 percent, yet the extra row \<^verbatim>\<open>percentage1\<close> carries 1.0, the percentage of
  the last line, and no row \<^verbatim>\<open>percentage1\<close> with 95.0 is written.
\<close>

theorem percentile_floor_row_counterexample:
  "percentile_rows DEPTH_THRESHOLDS ''s1'' dist_ascending
     = Inr [[''cutoff_reads'', ''bases_pct'', ''sample''],
            [''percentage10'', ''95.0'', ''s1''],
            [''percentage50000'', ''1.0'', ''s1''],
            [''percentage1'', ''1.0'', ''s1'']]
   \<and> List.map_filter total_row dist_ascending = [(10, 95 / 100), (50000, 1 / 100)]
   \<and> summary_row ''s1'' (10, 95 / 100) = [''percentage10'', ''95.0'', ''s1'']
   \<and> \<not> List.member
         [[''cutoff_reads'', ''bases_pct'', ''sample''],
          [''percentage10'', ''95.0'', ''s1''],
          [''percentage50000'', ''1.0'', ''s1''],
          [''percentage1'', ''1.0'', ''s1'']]
         [''percentage1'', ''95.0'', ''s1'']"
  by code_simp

text \<open>
  C2, amended. For a distribution file whose lines have three fields, whose \<^verbatim>\<open>total\<close>
  rows carry an integer and a decimal fraction and whose last line is a \<^verbatim>\<open>total\<close> row,
  and a cutoff list that is not empty: after the header, one row
  \<open>(percentage<count>, pct * 100 with one decimal, sample)\<close> for each \<^verbatim>\<open>total\<close> row with
  \<open>min cutoffs \<le> count \<le> max cutoffs\<close>, in the order of the file; then, when the count of
  the last line is above \<open>min cutoffs\<close>, one extra row \<open>percentage<min cutoffs>\<close> with the
  percentage of that last line.
\<close>

theorem percentile_rows_floor_from_last_line:
  assumes ok: "list_all dist_line_ok ls"
    and cut: "cutoffs \<noteq> []"
    and nonempty: "ls \<noteq> []"
    and last_total: "total_row (last ls) = Some (c_last, p_last)"
  shows "percentile_rows cutoffs sample ls =
           Inr ([''cutoff_reads'', ''bases_pct'', ''sample'']
                # map (summary_row sample)
                    (filter (in_cutoffs cutoffs) (List.map_filter total_row ls))
                @ (if Min (set cutoffs) < c_last
                   then [[''percentage'' @ str_int (Min (set cutoffs)), fmt_1f (p_last * 100), sample]]
                   else []))"
proof -
  let ?front = "butlast ls"
  let ?emit = "\<lambda>xs. map (summary_row sample) (filter (in_cutoffs cutoffs) (List.map_filter total_row xs))"
  from nonempty have split: "ls = ?front @ [last ls]" by simp
  from ok split have ok_front: "list_all dist_line_ok ?front"
    by (metis list_all_append)
  from percentile_loop_rows[OF ok_front cut, of sample "[]" None None]
  obtain c1 p1 where front:
    "percentile_loop cutoffs sample ?front ([], None, None) = Inr (?emit ?front, c1, p1)"
    by auto
  have last_step: "percentile_loop cutoffs sample [last ls] (?emit ?front, c1, p1) =
      Inr (?emit ?front @ (if in_cutoffs cutoffs (c_last, p_last)
                           then [summary_row sample (c_last, p_last)] else []),
           Some (PInt c_last), Some (fmt_1f (p_last * 100)))"
    using percentile_step_total[OF last_total cut, of sample "?emit ?front" c1 p1] by simp
  have emit_all: "?emit ls = ?emit ?front @ (if in_cutoffs cutoffs (c_last, p_last)
                           then [summary_row sample (c_last, p_last)] else [])"
  proof -
    have "?emit ls = ?emit (?front @ [last ls])" using split by simp
    also have "\<dots> = ?emit ?front @ ?emit [last ls]"
      by (simp only: map_filter_append filter_append map_append)
    also have "?emit [last ls] = (if in_cutoffs cutoffs (c_last, p_last)
                           then [summary_row sample (c_last, p_last)] else [])"
      using last_total by simp
    finally show ?thesis .
  qed
  have "percentile_loop cutoffs sample ls ([], None, None) =
      Inr (?emit ls, Some (PInt c_last), Some (fmt_1f (p_last * 100)))"
  proof -
    have "percentile_loop cutoffs sample ls ([], None, None)
          = percentile_loop cutoffs sample (?front @ [last ls]) ([], None, None)"
      using split by simp
    also have "\<dots> = percentile_loop cutoffs sample [last ls] (?emit ?front, c1, p1)"
      by (simp only: percentile_loop_append front sum.case)
    finally show ?thesis using last_step emit_all by simp
  qed
  then show ?thesis
    by (simp add: percentile_rows_def floor_row_def py_min_Min[OF cut] str_opt_def)
qed

theorem percentile_rows_floor_from_last_line_witness:
  "list_all dist_line_ok dist_descending
   \<and> DEPTH_THRESHOLDS \<noteq> []
   \<and> dist_descending \<noteq> []
   \<and> total_row (last dist_descending) = Some (10, 95 / 100)
   \<and> percentile_rows DEPTH_THRESHOLDS ''s1'' dist_descending
       = Inr [[''cutoff_reads'', ''bases_pct'', ''sample''],
              [''percentage50000'', ''1.0'', ''s1''],
              [''percentage10'', ''95.0'', ''s1''],
              [''percentage1'', ''95.0'', ''s1'']]"
proof -
  have ok: "list_all dist_line_ok dist_descending" by code_simp
  have cut: "DEPTH_THRESHOLDS \<noteq> []" by (simp add: DEPTH_THRESHOLDS_def)
  have nonempty: "dist_descending \<noteq> []" by (simp add: dist_descending_def)
  have last_total: "total_row (last dist_descending) = Some (10, 95 / 100)" by code_simp
  have rows: "map (summary_row ''s1'')
                (filter (in_cutoffs DEPTH_THRESHOLDS) (List.map_filter total_row dist_descending))
              = [[''percentage50000'', ''1.0'', ''s1''], [''percentage10'', ''95.0'', ''s1'']]"
    by code_simp
  have lo: "Min (set DEPTH_THRESHOLDS) = 1" by code_simp
  have one: "str_int 1 = ''1''" by code_simp
  have pct: "fmt_1f (95 / 100 * 100) = ''95.0''" by code_simp
  from percentile_rows_floor_from_last_line[OF ok cut nonempty last_total, of "''s1''"]
  have "percentile_rows DEPTH_THRESHOLDS ''s1'' dist_descending
       = Inr [[''cutoff_reads'', ''bases_pct'', ''sample''],
              [''percentage50000'', ''1.0'', ''s1''],
              [''percentage10'', ''95.0'', ''s1''],
              [''percentage1'', ''95.0'', ''s1'']]"
    unfolding rows lo one pct by simp
  with ok cut nonempty last_total show ?thesis by blast
qed

end
